theory Spec2Isabelle
  imports Main "HOL-Library.Word"
begin

unbundle bit_operations_syntax

section \<open>The ELF writer of the JIT (cinderx/Jit/elf.cpp)\<close>

text \<open>
  \<open>writeEntries\<close> lays out a small ELF object for a list of compiled functions and
  writes it to an output stream. The source file includes \<open>cinderx/Jit/elf.h\<close>, which
  declares the records, the two append-only tables and the constants. That header is not
  part of the sources at hand, so its declarations are modelled from the specification
  (each such definition says so), and what the specification leaves open (the size of
  the file header and of a symbol record, and the memory image of each record) is a
  parameter, collected in the record \<open>abi\<close>.
\<close>

type_synonym byte = "8 word"
type_synonym u16 = "16 word"
type_synonym u32 = "32 word"
type_synonym u64 = "64 word"

subsection \<open>Data model\<close>

text \<open>The two fatal error kinds. \<open>JIT_CHECK\<close> aborts the process; the model returns the
  kind of the failed check instead of a result.\<close>

datatype error = StructuralInvariantViolation | IoFailure

text \<open>Modelled from the spec: the input entry, a name and the bytes of the machine code
  (declared in elf.h).\<close>

record CodeEntry =
  func_name :: string
  code :: "byte list"

text \<open>Modelled from the spec: the closed sets of section and segment identifiers of
  elf.h, \<open>raw\<close> giving the index of each in its header table (the section order is
  Null, Text, Dynsym, Dynstr, Shstrtab; \<open>kTotal\<close> is the number of entries).\<close>

datatype SectionIdx = Sec_kNull | Sec_kText | Sec_kDynsym | Sec_kDynstr | Sec_kShstrtab

datatype SegmentIdx = Seg_kText | Seg_kReadonly

fun raw_SectionIdx :: "SectionIdx \<Rightarrow> nat" where
  "raw_SectionIdx Sec_kNull = 0"
| "raw_SectionIdx Sec_kText = 1"
| "raw_SectionIdx Sec_kDynsym = 2"
| "raw_SectionIdx Sec_kDynstr = 3"
| "raw_SectionIdx Sec_kShstrtab = 4"

definition all_sections :: "SectionIdx list" where
  "all_sections = [Sec_kNull, Sec_kText, Sec_kDynsym, Sec_kDynstr, Sec_kShstrtab]"

definition all_segments :: "SegmentIdx list" where
  "all_segments = [Seg_kText, Seg_kReadonly]"

definition SectionIdx_kTotal :: nat where
  "SectionIdx_kTotal = length all_sections"

definition SegmentIdx_kTotal :: nat where
  "SegmentIdx_kTotal = length all_segments"

text \<open>Modelled from the spec: the types and flag bits of elf.h. The source combines flag
  bits with \<open>|\<close>; a field of flag bits is the set of the bits that are on, and \<open>|\<close>
  is the union. A zero field is the Null type, or no bit at all.\<close>

datatype SectionType = kNullSection | kProgram | kSymbolTable | kStringTable

datatype SectionFlag = kSectionAlloc | kSectionExecutable | kSectionInfoLink

datatype SegmentType = kNullSegment | kLoadableSegment

datatype SegmentFlag = kSegmentExecutable | kSegmentReadable

datatype SymbolFlag = kGlobal | kFunc

text \<open>Modelled from the spec: the fixed-layout records of elf.h. Of the file header only
  the fields that the source sets are kept; its identification fields are constants.\<close>

record FileHeader =
  segment_header_offset :: u64
  segment_header_count :: u16
  section_header_offset :: u64
  section_header_count :: u16
  section_name_index :: u16

record SectionHeader =
  sh_name_offset :: u32
  sh_type :: SectionType
  sh_flags :: "SectionFlag set"
  sh_address :: u64
  sh_offset :: u64
  sh_size :: u64
  sh_link :: u32
  sh_info :: u32
  sh_align :: u64
  sh_entry_size :: u64

record SegmentHeader =
  seg_type :: SegmentType
  seg_flags :: "SegmentFlag set"
  seg_offset :: u64
  seg_address :: u64
  seg_file_size :: u64
  seg_mem_size :: u64
  seg_align :: u64

record Symbol =
  sym_name_offset :: u32
  sym_info :: "SymbolFlag set"
  sym_section_index :: u16
  sym_address :: u64
  sym_size :: u64

definition FileHeader_init :: FileHeader where
  "FileHeader_init = \<lparr>segment_header_offset = 0, segment_header_count = 0,
     section_header_offset = 0, section_header_count = 0, section_name_index = 0\<rparr>"

definition SectionHeader_init :: SectionHeader where
  "SectionHeader_init = \<lparr>sh_name_offset = 0, sh_type = kNullSection, sh_flags = {},
     sh_address = 0, sh_offset = 0, sh_size = 0, sh_link = 0, sh_info = 0, sh_align = 0,
     sh_entry_size = 0\<rparr>"

definition SegmentHeader_init :: SegmentHeader where
  "SegmentHeader_init = \<lparr>seg_type = kNullSegment, seg_flags = {}, seg_offset = 0,
     seg_address = 0, seg_file_size = 0, seg_mem_size = 0, seg_align = 0\<rparr>"

definition Symbol_init :: Symbol where
  "Symbol_init = \<lparr>sym_name_offset = 0, sym_info = {}, sym_section_index = 0,
     sym_address = 0, sym_size = 0\<rparr>"

text \<open>What elf.h fixes and neither the source file nor the specification states: the size
  of the file header (\<open>FileHeader{}.header_size\<close>) and of a symbol record
  (\<open>sizeof(Symbol)\<close>), and the bytes that a record occupies in memory, which \<open>write\<close>
  copies to the stream.\<close>

record abi =
  sizeof_FileHeader :: nat
  sizeof_Symbol :: nat
  FileHeader_image :: "FileHeader \<Rightarrow> byte list"
  SectionHeader_image :: "SectionHeader \<Rightarrow> byte list"
  SegmentHeader_image :: "SegmentHeader \<Rightarrow> byte list"
  Symbol_image :: "Symbol \<Rightarrow> byte list"

text \<open>The sizes that the source asserts statically.\<close>

definition sizeof_SectionHeader :: nat where
  "sizeof_SectionHeader = 64"

definition sizeof_SegmentHeader :: nat where
  "sizeof_SegmentHeader = 56"

text \<open>Modelled from the spec: the append-only table of names of elf.h. It starts with one
  terminator byte, so that offset 0 is the empty name; \<open>insert\<close> appends the name and
  a terminator and returns the offset at which the name starts.\<close>

type_synonym StringTable = "byte list"

definition StringTable_init :: StringTable where
  "StringTable_init = [0]"

definition StringTable_insert :: "StringTable \<Rightarrow> string \<Rightarrow> u32 \<times> StringTable" where
  "StringTable_insert t s = (of_nat (length t), t @ map of_char s @ [0])"

definition StringTable_bytes :: "StringTable \<Rightarrow> byte list" where
  "StringTable_bytes t = t"

text \<open>Modelled from the spec: the append-only table of symbols of elf.h. It starts with
  the all-zero null symbol; \<open>bytes\<close> is the images of the records in insertion order.\<close>

type_synonym SymbolTable = "Symbol list"

definition SymbolTable_init :: SymbolTable where
  "SymbolTable_init = [Symbol_init]"

definition SymbolTable_insert :: "SymbolTable \<Rightarrow> Symbol \<Rightarrow> SymbolTable" where
  "SymbolTable_insert t symbol = t @ [symbol]"

definition SymbolTable_bytes :: "abi \<Rightarrow> SymbolTable \<Rightarrow> byte list" where
  "SymbolTable_bytes a t = concat (map (Symbol_image a) t)"

text \<open>Modelled from the spec: the layout workspace \<open>Object\<close> of elf.h. The header tables
  are arrays indexed by the identifiers; the members \<open>file_header\<close>,
  \<open>section_headers\<close>, \<open>segment_headers\<close> and the zero-length marker
  \<open>header_stop\<close> follow each other from offset 0, which gives the three offsets that
  the source takes with \<open>offsetof\<close>. The cursor \<open>section_offset\<close> is taken to be
  64 bits wide, as the argument of \<open>alignUp\<close> is.\<close>

record Object =
  file_header :: FileHeader
  section_headers :: "SectionIdx \<Rightarrow> SectionHeader"
  segment_headers :: "SegmentIdx \<Rightarrow> SegmentHeader"
  section_offset :: u64
  dynsym :: SymbolTable
  dynstr :: StringTable
  shstrtab :: StringTable

definition Object_init :: Object where
  "Object_init = \<lparr>file_header = FileHeader_init,
     section_headers = (\<lambda>_. SectionHeader_init),
     segment_headers = (\<lambda>_. SegmentHeader_init),
     section_offset = 0,
     dynsym = SymbolTable_init,
     dynstr = StringTable_init,
     shstrtab = StringTable_init\<rparr>"

definition offsetof_section_headers :: "abi \<Rightarrow> nat" where
  "offsetof_section_headers a = sizeof_FileHeader a"

definition offsetof_segment_headers :: "abi \<Rightarrow> nat" where
  "offsetof_segment_headers a =
     offsetof_section_headers a + SectionIdx_kTotal * sizeof_SectionHeader"

definition offsetof_header_stop :: "abi \<Rightarrow> nat" where
  "offsetof_header_stop a =
     offsetof_segment_headers a + SegmentIdx_kTotal * sizeof_SegmentHeader"

text \<open>The output stream is the standard library's, not this program's. Its model: the
  bytes accepted so far, the two sticky error flags, and how many more bytes the
  destination takes before a write fails (\<open>None\<close> for a destination that never fails).
  \<open>badbit\<close> is the flag that \<open>bad()\<close> reads; \<open>failbit\<close> stands for a fail state
  without \<open>badbit\<close>, as of a file stream that could not be opened. The stream is good
  when neither flag is set. \<open>os.write\<close> and \<open>os.put\<close> on a stream that is not good
  send nothing and leave \<open>badbit\<close> as it is; on a good stream, a write that the
  destination does not take sets \<open>badbit\<close>.\<close>

record ostream =
  contents :: "byte list"
  badbit :: bool
  failbit :: bool
  room :: "nat option"

definition ostream_write :: "ostream \<Rightarrow> byte list \<Rightarrow> ostream" where
  "ostream_write os data =
     (if badbit os \<or> failbit os then os
      else case room os of
        None \<Rightarrow> os\<lparr>contents := contents os @ data\<rparr>
      | Some r \<Rightarrow>
          if length data \<le> r
          then os\<lparr>contents := contents os @ data, room := Some (r - length data)\<rparr>
          else os\<lparr>contents := contents os @ take r data, badbit := True, room := Some 0\<rparr>)"

definition ostream_put :: "ostream \<Rightarrow> byte \<Rightarrow> ostream" where
  "ostream_put os c = ostream_write os [c]"

subsection \<open>Alignment\<close>

definition kPageSize :: u64 where
  "kPageSize = 0x1000"

definition kTextStartAddress :: u64 where
  "kTextStartAddress = kPageSize"

definition alignUp :: "u64 \<Rightarrow> u64" where
  "alignUp n = (let mask = kPageSize - 1 in (n + mask) AND NOT mask)"

definition isAligned :: "u64 \<Rightarrow> bool" where
  "isAligned n = (n = alignUp n)"

definition alignOffset :: "Object \<Rightarrow> u64 \<times> Object" where
  "alignOffset elf =
     (let new_offset = alignUp (section_offset elf);
          delta = new_offset - section_offset elf
      in (delta, elf\<lparr>section_offset := new_offset\<rparr>))"

subsection \<open>Headers\<close>

definition initFileHeader :: "abi \<Rightarrow> Object \<Rightarrow> Object" where
  "initFileHeader a elf =
     elf\<lparr>file_header := (file_header elf)
       \<lparr>segment_header_offset := of_nat (offsetof_segment_headers a),
        segment_header_count := of_nat SegmentIdx_kTotal,
        section_header_offset := of_nat (offsetof_section_headers a),
        section_header_count := of_nat SectionIdx_kTotal,
        section_name_index := of_nat (raw_SectionIdx Sec_kShstrtab)\<rparr>\<rparr>"

definition initTextSection :: "Object \<Rightarrow> u64 \<Rightarrow> error + Object" where
  "initTextSection elf text_size =
     (if \<not> isAligned (section_offset elf) then Inl StructuralInvariantViolation
      else
        let (name, names) = StringTable_insert (shstrtab elf) ''.text'';
            header = (section_headers elf Sec_kText)
              \<lparr>sh_name_offset := name,
               sh_type := kProgram,
               sh_flags := {kSectionAlloc} \<union> {kSectionExecutable},
               sh_address := section_offset elf,
               sh_offset := section_offset elf,
               sh_size := text_size,
               sh_align := 0x10\<rparr>
        in Inr (elf\<lparr>shstrtab := names,
                    section_headers := (section_headers elf)(Sec_kText := header),
                    section_offset := section_offset elf + sh_size header\<rparr>))"

definition initDynsymSection :: "abi \<Rightarrow> Object \<Rightarrow> error + Object" where
  "initDynsymSection a elf =
     (if \<not> isAligned (section_offset elf) then Inl StructuralInvariantViolation
      else
        let (name, names) = StringTable_insert (shstrtab elf) ''.dynsym'';
            header = (section_headers elf Sec_kDynsym)
              \<lparr>sh_name_offset := name,
               sh_type := kSymbolTable,
               sh_flags := {kSectionAlloc} \<union> {kSectionInfoLink},
               sh_address := section_offset elf,
               sh_offset := section_offset elf,
               sh_size := of_nat (length (SymbolTable_bytes a (dynsym elf))),
               sh_link := of_nat (raw_SectionIdx Sec_kDynstr),
               sh_info := 1,
               sh_entry_size := of_nat (sizeof_Symbol a)\<rparr>
        in Inr (elf\<lparr>shstrtab := names,
                    section_headers := (section_headers elf)(Sec_kDynsym := header),
                    section_offset := section_offset elf + sh_size header\<rparr>))"

definition initDynstrSection :: "Object \<Rightarrow> Object" where
  "initDynstrSection elf =
     (let (name, names) = StringTable_insert (shstrtab elf) ''.dynstr'';
          header = (section_headers elf Sec_kDynstr)
            \<lparr>sh_name_offset := name,
             sh_type := kStringTable,
             sh_flags := {kSectionAlloc},
             sh_address := section_offset elf,
             sh_offset := section_offset elf,
             sh_size := of_nat (length (StringTable_bytes (dynstr elf)))\<rparr>
      in elf\<lparr>shstrtab := names,
             section_headers := (section_headers elf)(Sec_kDynstr := header),
             section_offset := section_offset elf + sh_size header\<rparr>)"

definition initShstrtabSection :: "Object \<Rightarrow> Object" where
  "initShstrtabSection elf =
     (let (name, names) = StringTable_insert (shstrtab elf) ''.shstrtab'';
          header = (section_headers elf Sec_kShstrtab)
            \<lparr>sh_name_offset := name,
             sh_type := kStringTable,
             sh_offset := section_offset elf,
             sh_size := of_nat (length (StringTable_bytes names))\<rparr>
      in elf\<lparr>shstrtab := names,
             section_headers := (section_headers elf)(Sec_kShstrtab := header),
             section_offset := section_offset elf + sh_size header\<rparr>)"

definition initTextSegment :: "Object \<Rightarrow> Object" where
  "initTextSegment elf =
     (let section = section_headers elf Sec_kText;
          header = (segment_headers elf Seg_kText)
            \<lparr>seg_type := kLoadableSegment,
             seg_flags := {kSegmentExecutable} \<union> {kSegmentReadable},
             seg_offset := sh_offset section,
             seg_address := sh_address section,
             seg_file_size := sh_size section,
             seg_mem_size := sh_size section,
             seg_align := 0x1000\<rparr>
      in elf\<lparr>segment_headers := (segment_headers elf)(Seg_kText := header)\<rparr>)"

definition initReadonlySegment :: "Object \<Rightarrow> error + Object" where
  "initReadonlySegment elf =
     (let dynsym_section = section_headers elf Sec_kDynsym;
          dynstr_section = section_headers elf Sec_kDynstr
      in if \<not> sh_address dynsym_section < sh_address dynstr_section
         then Inl StructuralInvariantViolation
         else
           let header = (segment_headers elf Seg_kReadonly)
             \<lparr>seg_type := kLoadableSegment,
              seg_flags := {kSegmentReadable},
              seg_offset := sh_offset dynsym_section,
              seg_address := sh_address dynsym_section,
              seg_file_size := sh_size dynsym_section + sh_size dynstr_section,
              seg_mem_size := sh_size dynsym_section + sh_size dynstr_section,
              seg_align := 0x1000\<rparr>
           in Inr (elf\<lparr>segment_headers := (segment_headers elf)(Seg_kReadonly := header)\<rparr>))"

subsection \<open>Writing\<close>

text \<open>\<open>write\<close> (named \<open>write_os\<close> here, \<open>write\<close> being a keyword) checks
  \<open>bad()\<close>, and nothing else, after the bytes went out; \<open>pad\<close> puts zero bytes one by
  one and checks nothing, so it has no failing branch.\<close>

definition write_os :: "ostream \<Rightarrow> byte list \<Rightarrow> error + ostream" where
  "write_os os data =
     (let os' = ostream_write os data
      in if badbit os' then Inl IoFailure else Inr os')"

fun pad :: "ostream \<Rightarrow> nat \<Rightarrow> ostream" where
  "pad os 0 = os"
| "pad os (Suc n) = pad (ostream_put os 0) n"

subsection \<open>\<open>writeEntries\<close>\<close>

text \<open>The first loop of \<open>writeEntries\<close>: one symbol and one name per entry; the state is
  the workspace and \<open>text_end_address\<close>.\<close>

fun writeEntries_symbols :: "CodeEntry list \<Rightarrow> Object \<Rightarrow> u64 \<Rightarrow> Object \<times> u64" where
  "writeEntries_symbols [] elf text_end_address = (elf, text_end_address)"
| "writeEntries_symbols (entry # entries) elf text_end_address =
     (let (name, names) = StringTable_insert (dynstr elf) (func_name entry);
          symbol = Symbol_init
            \<lparr>sym_name_offset := name,
             sym_info := {kGlobal} \<union> {kFunc},
             sym_section_index := of_nat (raw_SectionIdx Sec_kText),
             sym_address := text_end_address,
             sym_size := of_nat (length (code entry))\<rparr>
      in writeEntries_symbols entries
           (elf\<lparr>dynstr := names, dynsym := SymbolTable_insert (dynsym elf) symbol\<rparr>)
           (text_end_address + of_nat (length (code entry))))"

text \<open>The part of \<open>writeEntries\<close> before the first write: the symbols, the sections and
  the segments. It returns the workspace with the two paddings.\<close>

definition writeEntries_layout :: "abi \<Rightarrow> CodeEntry list \<Rightarrow> error + (Object \<times> u64 \<times> u64)" where
  "writeEntries_layout a entries =
     (let elf = initFileHeader a Object_init;
          (elf, text_end_address) = writeEntries_symbols entries elf kTextStartAddress;
          text_size = text_end_address - kTextStartAddress;
          elf = elf\<lparr>section_offset := of_nat (offsetof_header_stop a)\<rparr>;
          (header_padding, elf) = alignOffset elf
      in if section_offset elf \<noteq> kTextStartAddress then Inl StructuralInvariantViolation
         else (case initTextSection elf text_size of
           Inl e \<Rightarrow> Inl e
         | Inr elf \<Rightarrow>
             (let (text_padding, elf) = alignOffset elf
              in (case initDynsymSection a elf of
                Inl e \<Rightarrow> Inl e
              | Inr elf \<Rightarrow>
                  (let elf = initDynstrSection elf;
                       elf = initShstrtabSection elf;
                       elf = initTextSegment elf
                   in (case initReadonlySegment elf of
                     Inl e \<Rightarrow> Inl e
                   | Inr elf \<Rightarrow> Inr (elf, header_padding, text_padding)))))))"

text \<open>The second loop of \<open>writeEntries\<close>: the code of every entry.\<close>

fun writeEntries_code :: "ostream \<Rightarrow> CodeEntry list \<Rightarrow> error + ostream" where
  "writeEntries_code os [] = Inr os"
| "writeEntries_code os (entry # entries) =
     (case write_os os (code entry) of
        Inl e \<Rightarrow> Inl e
      | Inr os \<Rightarrow> writeEntries_code os entries)"

text \<open>The part of \<open>writeEntries\<close> from the first write on.\<close>

definition writeEntries_emit ::
  "abi \<Rightarrow> ostream \<Rightarrow> CodeEntry list \<Rightarrow> Object \<Rightarrow> u64 \<Rightarrow> u64 \<Rightarrow> error + ostream" where
  "writeEntries_emit a os entries elf header_padding text_padding =
     (case write_os os (FileHeader_image a (file_header elf)) of
        Inl e \<Rightarrow> Inl e
      | Inr os \<Rightarrow>
     (case write_os os (concat (map (\<lambda>i. SectionHeader_image a (section_headers elf i)) all_sections)) of
        Inl e \<Rightarrow> Inl e
      | Inr os \<Rightarrow>
     (case write_os os (concat (map (\<lambda>i. SegmentHeader_image a (segment_headers elf i)) all_segments)) of
        Inl e \<Rightarrow> Inl e
      | Inr os \<Rightarrow>
     (case writeEntries_code (pad os (unat header_padding)) entries of
        Inl e \<Rightarrow> Inl e
      | Inr os \<Rightarrow>
     (case write_os (pad os (unat text_padding)) (SymbolTable_bytes a (dynsym elf)) of
        Inl e \<Rightarrow> Inl e
      | Inr os \<Rightarrow>
     (case write_os os (StringTable_bytes (dynstr elf)) of
        Inl e \<Rightarrow> Inl e
      | Inr os \<Rightarrow> write_os os (StringTable_bytes (shstrtab elf))))))))"

definition writeEntries :: "abi \<Rightarrow> ostream \<Rightarrow> CodeEntry list \<Rightarrow> error + ostream" where
  "writeEntries a os entries =
     (case writeEntries_layout a entries of
        Inl e \<Rightarrow> Inl e
      | Inr (elf, header_padding, text_padding) \<Rightarrow>
          writeEntries_emit a os entries elf header_padding text_padding)"

text \<open>A sample of the parameters, for the examples: the sizes of the 64-bit format (a file
  header of 64 bytes, a symbol of 24 bytes), and images that have these sizes and are
  filled with zero bytes.\<close>

definition elf64 :: abi where
  "elf64 = \<lparr>sizeof_FileHeader = 64, sizeof_Symbol = 24,
     FileHeader_image = (\<lambda>_. replicate 64 0),
     SectionHeader_image = (\<lambda>_. replicate 64 0),
     SegmentHeader_image = (\<lambda>_. replicate 56 0),
     Symbol_image = (\<lambda>_. replicate 24 0)\<rparr>"

subsection \<open>Vocabulary of the statements\<close>

text \<open>
  Two notions used to state what reaches the stream: a stream \<open>accepts\<close>
  \<open>n\<close> bytes when it is good and the destination takes at least \<open>n\<close>
  more bytes, and \<open>ostream_append\<close> is the stream after it took the bytes.
\<close>

definition ostream_accepts :: "ostream \<Rightarrow> nat \<Rightarrow> bool" where
  "ostream_accepts os n =
     (\<not> badbit os \<and> \<not> failbit os
      \<and> (case room os of None \<Rightarrow> True | Some r \<Rightarrow> n \<le> r))"

definition ostream_append :: "ostream \<Rightarrow> byte list \<Rightarrow> ostream" where
  "ostream_append os data =
     os\<lparr>contents := contents os @ data,
        room := map_option (\<lambda>r. r - length data) (room os)\<rparr>"

text \<open>
  Three conditions on the parameters and on the size of the input. \<open>abi_ok\<close>:
  a symbol record is not empty and every image of one has the size of the record.
  \<open>headers_fit\<close>: the three header tables end within the first page.
  \<open>layout_fits\<close>: the end of the symbol table, with the padding in front of it
  at its largest, stays below \<open>2 ^ 64\<close>, so that no offset of the layout wraps
  around.
\<close>

definition abi_ok :: "abi \<Rightarrow> bool" where
  "abi_ok a \<longleftrightarrow> 0 < sizeof_Symbol a \<and> (\<forall>s. length (Symbol_image a s) = sizeof_Symbol a)"

definition headers_fit :: "abi \<Rightarrow> bool" where
  "headers_fit a \<longleftrightarrow> offsetof_header_stop a \<le> unat kPageSize"

definition layout_fits :: "abi \<Rightarrow> CodeEntry list \<Rightarrow> bool" where
  "layout_fits a entries \<longleftrightarrow>
     unat kTextStartAddress + sum_list (map (\<lambda>e. length (code e)) entries)
       + (unat kPageSize - 1) + sizeof_Symbol a * (length entries + 1) < 2 ^ 64"

text \<open>
  Two more notions, for the object as a file. \<open>images_sized\<close>: the images of the
  three kinds of header have the sizes of the records (for the section and segment headers
  the sizes that the source asserts). \<open>file_range\<close>: the bytes of a file from an
  offset on, as many as a size says; a header with this offset and size describes them.
\<close>

definition images_sized :: "abi \<Rightarrow> bool" where
  "images_sized a \<longleftrightarrow>
     (\<forall>h. length (FileHeader_image a h) = sizeof_FileHeader a)
   \<and> (\<forall>h. length (SectionHeader_image a h) = sizeof_SectionHeader)
   \<and> (\<forall>h. length (SegmentHeader_image a h) = sizeof_SegmentHeader)"

definition file_range :: "byte list \<Rightarrow> u64 \<Rightarrow> u64 \<Rightarrow> byte list" where
  "file_range bytes offset len = take (unat len) (drop (unat offset) bytes)"

text \<open>
  Two sample inputs: two functions of 16 and 32 bytes, and a function without code
  followed by one of a single byte.
\<close>

definition foo_bar :: "CodeEntry list" where
  "foo_bar = [\<lparr>func_name = ''foo'', code = replicate 16 0x90\<rparr>,
              \<lparr>func_name = ''bar'', code = replicate 32 0x90\<rparr>]"

definition empty_codes :: "CodeEntry list" where
  "empty_codes = [\<lparr>func_name = ''f'', code = []\<rparr>, \<lparr>func_name = ''g'', code = [0xC3]\<rparr>]"

section \<open>Alignment\<close>

text \<open>
  \<open>alignUp\<close> in arithmetic: the next multiple of the page size, modulo
  \<open>2 ^ 64\<close>. It is idempotent, and it sends every offset from 1 to the page
  size to the page size.
\<close>

lemma and_not_mask_12: "(w :: u64) AND NOT 0xFFF = push_bit 12 (drop_bit 12 w)"
proof -
  have m: "(0xFFF :: u64) = mask 12" by (simp add: mask_eq_exp_minus_1)
  show ?thesis unfolding m
    by (rule bit_eqI) (auto simp add: bit_simps)
qed

lemma unat_and_not_mask_12: "unat ((w :: u64) AND NOT 0xFFF) = unat w div 4096 * 4096"
proof -
  have "unat (push_bit 12 (drop_bit 12 w)) = take_bit 64 (push_bit 12 (drop_bit 12 (unat w)))"
    by (simp add: unsigned_push_bit_eq unat_drop_bit_eq)
  also have "\<dots> = (unat w div 4096 * 4096) mod 2 ^ 64"
    by (simp add: take_bit_eq_mod push_bit_eq_mult drop_bit_eq_div)
  also have "\<dots> = unat w div 4096 * 4096"
  proof -
    have "unat w div 4096 * 4096 \<le> unat w" by simp
    moreover have "unat w < 2 ^ 64" using unsigned_less [of w] by simp
    ultimately show ?thesis by simp
  qed
  finally show ?thesis by (simp only: and_not_mask_12)
qed

lemma unat_alignUp: "unat (alignUp n) = ((unat n + 4095) mod 2 ^ 64) div 4096 * 4096"
proof -
  have "alignUp n = (n + 0xFFF) AND NOT 0xFFF"
    by (simp add: alignUp_def kPageSize_def)
  then have "unat (alignUp n) = unat (n + 0xFFF) div 4096 * 4096"
    by (simp only: unat_and_not_mask_12)
  then show ?thesis by (simp add: unat_word_ariths)
qed

lemma alignUp_idem: "alignUp (alignUp n) = alignUp n"
proof -
  define k where "k = (unat n + 4095) mod 2 ^ 64 div 4096"
  have k: "unat (alignUp n) = k * 4096" by (simp add: unat_alignUp k_def)
  have "unat (alignUp n) < 2 ^ 64" using unsigned_less [of "alignUp n"] by simp
  then have "k * 4096 < 2 ^ 64" unfolding k .
  then have "k < 2 ^ 52" by simp
  then have "k * 4096 + 4095 < 2 ^ 64" by simp
  then have "unat (alignUp (alignUp n)) = k * 4096"
    by (simp add: unat_alignUp [of "alignUp n"] k)
  then show ?thesis using k by (simp add: word_unat_eq_iff)
qed

lemma alignUp_header: "0 < n \<Longrightarrow> n \<le> 4096 \<Longrightarrow> alignUp (of_nat n) = kTextStartAddress"
proof -
  assume n: "0 < n" "n \<le> 4096"
  then have u: "unat (of_nat n :: u64) = n" by (simp add: unat_of_nat)
  have "unat (alignUp (of_nat n)) = 4096"
    using n by (simp add: unat_alignUp u) 
  then show ?thesis by (simp add: word_unat_eq_iff kTextStartAddress_def kPageSize_def)
qed

lemma isAligned_alignUp: "isAligned (alignUp n)"
  by (simp add: isAligned_def alignUp_idem)

lemma isAligned_kTextStartAddress: "isAligned kTextStartAddress"
  by (simp add: isAligned_def alignUp_def kTextStartAddress_def kPageSize_def)

lemma offsetof_header_stop_pos: "0 < offsetof_header_stop a"
  by (simp add: offsetof_header_stop_def offsetof_segment_headers_def SegmentIdx_kTotal_def
      all_segments_def sizeof_SegmentHeader_def)

lemma header_check:
  "headers_fit a \<Longrightarrow> alignUp (of_nat (offsetof_header_stop a)) = kTextStartAddress"
  by (rule alignUp_header [OF offsetof_header_stop_pos])
     (simp add: headers_fit_def kPageSize_def)

section \<open>The symbol loop\<close>

text \<open>
  The loop appends to the two tables and touches nothing else; the \<open>i\<close>-th
  symbol that it appends is the one of the \<open>i\<close>-th entry.
\<close>

lemma symbols_Cons:
  "writeEntries_symbols (e # es) elf tea =
     writeEntries_symbols es
       (elf\<lparr>dynstr := dynstr elf @ map of_char (func_name e) @ [0],
            dynsym := dynsym elf @
              [\<lparr>sym_name_offset = of_nat (length (dynstr elf)), sym_info = {kGlobal, kFunc},
                sym_section_index = 1, sym_address = tea,
                sym_size = of_nat (length (code e))\<rparr>]\<rparr>)
       (tea + of_nat (length (code e)))"
  by (simp add: Let_def StringTable_insert_def SymbolTable_insert_def Symbol_init_def
      insert_commute)

lemma symbols_frame:
  "writeEntries_symbols es elf tea = (elf', tea') \<Longrightarrow>
     file_header elf' = file_header elf \<and> section_headers elf' = section_headers elf \<and>
     segment_headers elf' = segment_headers elf \<and> section_offset elf' = section_offset elf \<and>
     shstrtab elf' = shstrtab elf"
proof (induction es arbitrary: elf tea)
  case Nil
  then show ?case by simp
next
  case (Cons e es)
  from Cons.IH [OF Cons.prems [unfolded symbols_Cons]] show ?case by simp
qed

lemma symbols_end:
  "writeEntries_symbols es elf tea = (elf', tea') \<Longrightarrow>
     tea' = tea + of_nat (sum_list (map (\<lambda>e. length (code e)) es))"
proof (induction es arbitrary: elf tea)
  case Nil
  then show ?case by simp
next
  case (Cons e es)
  from Cons.IH [OF Cons.prems [unfolded symbols_Cons]] show ?case by (simp add: add.assoc)
qed

lemma symbols_dynsym:
  "writeEntries_symbols es elf tea = (elf', tea') \<Longrightarrow>
     \<exists>ys. dynsym elf' = dynsym elf @ ys \<and> length ys = length es"
proof (induction es arbitrary: elf tea)
  case Nil
  then show ?case by simp
next
  case (Cons e es)
  from Cons.IH [OF Cons.prems [unfolded symbols_Cons]] show ?case by auto
qed

lemma symbols_dynstr:
  "writeEntries_symbols es elf tea = (elf', tea') \<Longrightarrow>
     dynstr elf' = dynstr elf @ concat (map (\<lambda>e. map of_char (func_name e) @ [0]) es)"
proof (induction es arbitrary: elf tea)
  case Nil
  then show ?case by simp
next
  case (Cons e es)
  from Cons.IH [OF Cons.prems [unfolded symbols_Cons]] show ?case by simp
qed

lemma symbols_nth:
  "writeEntries_symbols es elf tea = (elf', tea') \<Longrightarrow> i < length es \<Longrightarrow>
     dynsym elf' ! (length (dynsym elf) + i) =
       \<lparr>sym_name_offset = of_nat (length (dynstr elf) +
           sum_list (map (\<lambda>e. length (func_name e) + 1) (take i es))),
        sym_info = {kGlobal, kFunc},
        sym_section_index = 1,
        sym_address = tea + of_nat (sum_list (map (\<lambda>e. length (code e)) (take i es))),
        sym_size = of_nat (length (code (es ! i)))\<rparr>"
proof (induction es arbitrary: elf tea i)
  case Nil
  then show ?case by simp
next
  case (Cons e es)
  note r = Cons.prems(1) [unfolded symbols_Cons]
  show ?case
  proof (cases i)
    case 0
    from symbols_dynsym [OF r] obtain ys where "dynsym elf' = 
       (dynsym elf @ [\<lparr>sym_name_offset = of_nat (length (dynstr elf)), sym_info = {kGlobal, kFunc},
                sym_section_index = 1, sym_address = tea,
                sym_size = of_nat (length (code e))\<rparr>]) @ ys" by auto
    then show ?thesis using 0 by (simp add: nth_append)
  next
    case (Suc j)
    with Cons.prems have j: "j < length es" by simp
    from Cons.IH [OF r j] show ?thesis using Suc by (simp add: add.assoc)
  qed
qed

lemma symbols_init_length:
  assumes "writeEntries_symbols es (initFileHeader a Object_init) kTextStartAddress = (elf0, tea)"
  shows "length (dynsym elf0) = 1 + length es" and "dynsym elf0 ! 0 = Symbol_init"
proof -
  from symbols_dynsym [OF assms] obtain ys where
    "dynsym elf0 = dynsym (initFileHeader a Object_init) @ ys" "length ys = length es" by blast
  then have d: "dynsym elf0 = Symbol_init # ys" and l: "length ys = length es"
    by (simp_all add: initFileHeader_def Object_init_def SymbolTable_init_def)
  from d l show "length (dynsym elf0) = 1 + length es" by simp
  from d show "dynsym elf0 ! 0 = Symbol_init" by simp
qed

lemma symbols_Null_header:
  assumes "writeEntries_symbols es (initFileHeader a Object_init) kTextStartAddress = (elf0, tea)"
  shows "section_headers elf0 Sec_kNull = SectionHeader_init"
  using symbols_frame [OF assms] by (simp add: initFileHeader_def Object_init_def)

lemma unat_base_plus:
  assumes "unat kTextStartAddress + n < 2 ^ 64"
  shows "unat (kTextStartAddress + of_nat n) = unat kTextStartAddress + n"
proof -
  from assms have "unat (of_nat n :: u64) = n" by (simp add: unat_of_nat)
  with assms show ?thesis by (simp add: unat_word_ariths)
qed

lemma sum_take_le:
  "sum_list (map f (take i xs)) \<le> sum_list (map (f :: 'a \<Rightarrow> nat) xs)"
proof -
  have "sum_list (map f xs) = sum_list (map f (take i xs)) + sum_list (map f (drop i xs))"
    by (metis append_take_drop_id map_append sum_list_append)
  then show ?thesis by simp
qed

lemma sum_take_split:
  assumes "i \<le> j"
  shows "sum_list (map f (take j xs)) =
     sum_list (map f (take i xs)) + sum_list (map (f :: 'a \<Rightarrow> nat) (drop i (take j xs)))"
proof -
  from assms have "take i (take j xs) = take i xs" by (simp add: min_def)
  moreover have "take j xs = take i (take j xs) @ drop i (take j xs)"
    by (rule append_take_drop_id [symmetric])
  ultimately have "take j xs = take i xs @ drop i (take j xs)" by simp
  then have "map f (take j xs) = map f (take i xs) @ map f (drop i (take j xs))"
    by (metis map_append)
  then show ?thesis by simp
qed

lemma sum_pos_iff:
  "0 < sum_list (map (\<lambda>e. length (code e)) ys) \<longleftrightarrow> (\<exists>e \<in> set ys. code e \<noteq> [])"
  by (induction ys) auto

lemma set_drop_take:
  assumes "j < length xs"
  shows "set (drop i (take j xs)) = {xs ! k | k. i \<le> k \<and> k < j}"
proof -
  have "set (drop i (take j xs)) = {drop i (take j xs) ! n | n. n < length (drop i (take j xs))}"
    by (simp add: set_conv_nth)
  also have "\<dots> = {xs ! k | k. i \<le> k \<and> k < j}"
  proof (intro set_eqI iffI; clarify)
    fix n assume "n < length (drop i (take j xs))"
    with assms have "i + n < j" by simp
    then show "\<exists>k. drop i (take j xs) ! n = xs ! k \<and> i \<le> k \<and> k < j"
      using assms by (intro exI [of _ "i + n"]) simp
  next
    fix k assume "i \<le> k" "k < j"
    then have "k - i < length (drop i (take j xs))" using assms by simp
    moreover have "drop i (take j xs) ! (k - i) = xs ! k"
      using \<open>i \<le> k\<close> \<open>k < j\<close> assms by simp
    ultimately show "\<exists>n. xs ! k = drop i (take j xs) ! n \<and> n < length (drop i (take j xs))"
      by metis
  qed
  finally show ?thesis .
qed

lemma symbols_unat_address:
  assumes s: "writeEntries_symbols es (initFileHeader a Object_init) kTextStartAddress = (elf0, tea)"
    and b: "unat kTextStartAddress + sum_list (map (\<lambda>e. length (code e)) es) < 2 ^ 64"
    and i: "i < length es"
  shows "unat (sym_address (dynsym elf0 ! Suc i)) =
      unat kTextStartAddress + sum_list (map (\<lambda>e. length (code e)) (take i es))"
proof -
  have d1: "length (dynsym (initFileHeader a Object_init)) = 1"
    by (simp add: initFileHeader_def Object_init_def SymbolTable_init_def)
  have "sym_address (dynsym elf0 ! Suc i) =
      kTextStartAddress + of_nat (sum_list (map (\<lambda>e. length (code e)) (take i es)))"
    using symbols_nth [OF s i] by (simp add: d1)
  moreover have "sum_list (map (\<lambda>e. length (code e)) (take i es))
      \<le> sum_list (map (\<lambda>e. length (code e)) es)"
    by (rule sum_take_le)
  with b have "unat kTextStartAddress + sum_list (map (\<lambda>e. length (code e)) (take i es)) < 2 ^ 64"
    by simp
  ultimately show ?thesis by (simp add: unat_base_plus)
qed

section \<open>The layout\<close>

text \<open>
  The workspace that the layout returns, field by field, in terms of the workspace
  \<open>elf0\<close> and the address \<open>tea\<close> that the symbol loop leaves; then
  the checks that a normal return has passed, and conditions under which all of them pass.
\<close>

lemmas layout_defs = writeEntries_layout_def alignOffset_def initTextSection_def
  initDynsymSection_def initDynstrSection_def initShstrtabSection_def initTextSegment_def
  initReadonlySegment_def StringTable_insert_def StringTable_bytes_def Let_def

lemma layout_result:
  assumes "writeEntries_layout a es = Inr (elf, hp, tp)"
    and "writeEntries_symbols es (initFileHeader a Object_init) kTextStartAddress = (elf0, tea)"
  shows "alignUp (of_nat (offsetof_header_stop a)) = kTextStartAddress
    \<and> hp = kTextStartAddress - of_nat (offsetof_header_stop a)
    \<and> tp = alignUp tea - tea
    \<and> alignUp tea < alignUp tea + of_nat (length (SymbolTable_bytes a (dynsym elf0)))
    \<and> elf = elf0
        \<lparr>section_headers := (section_headers elf0)
           (Sec_kText := (section_headers elf0 Sec_kText)
              \<lparr>sh_name_offset := of_nat (length (shstrtab elf0)),
               sh_type := kProgram,
               sh_flags := {kSectionAlloc, kSectionExecutable},
               sh_address := kTextStartAddress,
               sh_offset := kTextStartAddress,
               sh_size := tea - kTextStartAddress,
               sh_align := 0x10\<rparr>,
            Sec_kDynsym := (section_headers elf0 Sec_kDynsym)
              \<lparr>sh_name_offset := of_nat (length (shstrtab elf0) + 6),
               sh_type := kSymbolTable,
               sh_flags := {kSectionAlloc, kSectionInfoLink},
               sh_address := alignUp tea,
               sh_offset := alignUp tea,
               sh_size := of_nat (length (SymbolTable_bytes a (dynsym elf0))),
               sh_link := 3,
               sh_info := 1,
               sh_entry_size := of_nat (sizeof_Symbol a)\<rparr>,
            Sec_kDynstr := (section_headers elf0 Sec_kDynstr)
              \<lparr>sh_name_offset := of_nat (length (shstrtab elf0) + 14),
               sh_type := kStringTable,
               sh_flags := {kSectionAlloc},
               sh_address := alignUp tea + of_nat (length (SymbolTable_bytes a (dynsym elf0))),
               sh_offset := alignUp tea + of_nat (length (SymbolTable_bytes a (dynsym elf0))),
               sh_size := of_nat (length (dynstr elf0))\<rparr>,
            Sec_kShstrtab := (section_headers elf0 Sec_kShstrtab)
              \<lparr>sh_name_offset := of_nat (length (shstrtab elf0) + 22),
               sh_type := kStringTable,
               sh_offset := alignUp tea + of_nat (length (SymbolTable_bytes a (dynsym elf0)))
                  + of_nat (length (dynstr elf0)),
               sh_size := of_nat (length (shstrtab elf0) + 32)\<rparr>),
         segment_headers := (segment_headers elf0)
           (Seg_kText := (segment_headers elf0 Seg_kText)
              \<lparr>seg_type := kLoadableSegment,
               seg_flags := {kSegmentExecutable, kSegmentReadable},
               seg_offset := kTextStartAddress,
               seg_address := kTextStartAddress,
               seg_file_size := tea - kTextStartAddress,
               seg_mem_size := tea - kTextStartAddress,
               seg_align := 0x1000\<rparr>,
            Seg_kReadonly := (segment_headers elf0 Seg_kReadonly)
              \<lparr>seg_type := kLoadableSegment,
               seg_flags := {kSegmentReadable},
               seg_offset := alignUp tea,
               seg_address := alignUp tea,
               seg_file_size := of_nat (length (SymbolTable_bytes a (dynsym elf0)))
                  + of_nat (length (dynstr elf0)),
               seg_mem_size := of_nat (length (SymbolTable_bytes a (dynsym elf0)))
                  + of_nat (length (dynstr elf0)),
               seg_align := 0x1000\<rparr>),
         section_offset := alignUp tea + of_nat (length (SymbolTable_bytes a (dynsym elf0)))
                  + of_nat (length (dynstr elf0)) + of_nat (length (shstrtab elf0) + 32),
         shstrtab := shstrtab elf0 @ map of_char ''.text'' @ [0] @ map of_char ''.dynsym'' @ [0]
            @ map of_char ''.dynstr'' @ [0] @ map of_char ''.shstrtab'' @ [0]\<rparr>"
  using assms
  by (auto simp add: layout_defs insert_commute add.commute split: if_splits)

lemma layout_parts:
  assumes "writeEntries_layout a es = Inr (elf, hp, tp)"
    and "writeEntries_symbols es (initFileHeader a Object_init) kTextStartAddress = (elf0, tea)"
  shows "section_headers elf Sec_kNull = section_headers elf0 Sec_kNull"
    and "section_headers elf Sec_kText = (section_headers elf0 Sec_kText)
              \<lparr>sh_name_offset := of_nat (length (shstrtab elf0)),
               sh_type := kProgram,
               sh_flags := {kSectionAlloc, kSectionExecutable},
               sh_address := kTextStartAddress,
               sh_offset := kTextStartAddress,
               sh_size := tea - kTextStartAddress,
               sh_align := 0x10\<rparr>"
    and "section_headers elf Sec_kDynsym = (section_headers elf0 Sec_kDynsym)
              \<lparr>sh_name_offset := of_nat (length (shstrtab elf0) + 6),
               sh_type := kSymbolTable,
               sh_flags := {kSectionAlloc, kSectionInfoLink},
               sh_address := alignUp tea,
               sh_offset := alignUp tea,
               sh_size := of_nat (length (SymbolTable_bytes a (dynsym elf0))),
               sh_link := 3,
               sh_info := 1,
               sh_entry_size := of_nat (sizeof_Symbol a)\<rparr>"
    and "section_headers elf Sec_kDynstr = (section_headers elf0 Sec_kDynstr)
              \<lparr>sh_name_offset := of_nat (length (shstrtab elf0) + 14),
               sh_type := kStringTable,
               sh_flags := {kSectionAlloc},
               sh_address := alignUp tea + of_nat (length (SymbolTable_bytes a (dynsym elf0))),
               sh_offset := alignUp tea + of_nat (length (SymbolTable_bytes a (dynsym elf0))),
               sh_size := of_nat (length (dynstr elf0))\<rparr>"
    and "segment_headers elf Seg_kReadonly = (segment_headers elf0 Seg_kReadonly)
              \<lparr>seg_type := kLoadableSegment,
               seg_flags := {kSegmentReadable},
               seg_offset := alignUp tea,
               seg_address := alignUp tea,
               seg_file_size := of_nat (length (SymbolTable_bytes a (dynsym elf0)))
                  + of_nat (length (dynstr elf0)),
               seg_mem_size := of_nat (length (SymbolTable_bytes a (dynsym elf0)))
                  + of_nat (length (dynstr elf0)),
               seg_align := 0x1000\<rparr>"
    and "dynsym elf = dynsym elf0"
    and "dynstr elf = dynstr elf0"
    and "file_header elf = file_header elf0"
  using layout_result [OF assms] by simp_all

lemma layout_checks:
  assumes "writeEntries_layout a es = Inr (elf, hp, tp)"
    and "writeEntries_symbols es (initFileHeader a Object_init) kTextStartAddress = (elf0, tea)"
  shows "alignUp (of_nat (offsetof_header_stop a)) = kTextStartAddress"
    and "hp = kTextStartAddress - of_nat (offsetof_header_stop a)"
    and "tp = alignUp tea - tea"
    and "alignUp tea < alignUp tea + of_nat (length (SymbolTable_bytes a (dynsym elf0)))"
  using layout_result [OF assms] by simp_all

lemma SymbolTable_bytes_length:
  "abi_ok a \<Longrightarrow> length (SymbolTable_bytes a t) = sizeof_Symbol a * length t"
  by (induction t) (simp_all add: SymbolTable_bytes_def abi_ok_def)

lemma order_check:
  assumes ok: "abi_ok a" and fits: "layout_fits a es"
    and s: "writeEntries_symbols es (initFileHeader a Object_init) kTextStartAddress = (elf0, tea)"
  shows "alignUp tea < alignUp tea + of_nat (length (SymbolTable_bytes a (dynsym elf0)))"
proof -
  define total where "total = sum_list (map (\<lambda>e. length (code e)) es)"
  define S where "S = sizeof_Symbol a * (length es + 1)"
  from fits have f: "4096 + total + 4095 + S < 2 ^ 64"
    by (simp add: layout_fits_def kTextStartAddress_def kPageSize_def total_def S_def)
  have len: "length (SymbolTable_bytes a (dynsym elf0)) = S"
    by (simp add: SymbolTable_bytes_length [OF ok] symbols_init_length(1) [OF s] S_def)
  from ok have pos: "0 < S" by (simp add: abi_ok_def S_def)
  from f have uS: "unat (of_nat S :: u64) = S" by (simp add: unat_of_nat)
  from f have ut: "unat (of_nat total :: u64) = total" by (simp add: unat_of_nat)
  have "tea = 4096 + of_nat total"
    using symbols_end [OF s] by (simp add: kTextStartAddress_def kPageSize_def total_def)
  then have "unat tea = (4096 + total) mod 2 ^ 64"
    by (simp add: unat_word_ariths ut)
  with f have utea: "unat tea = 4096 + total" by simp
  have "unat (alignUp tea) = (unat tea + 4095) div 4096 * 4096"
    using f by (simp add: unat_alignUp utea)
  also have "\<dots> \<le> unat tea + 4095" by simp
  finally have "unat (alignUp tea) + unat (of_nat S :: u64) < 2 ^ 64"
    using f by (simp add: uS utea)
  then have "unat (alignUp tea + of_nat S) = unat (alignUp tea) + S"
    by (simp add: unat_add_lem [THEN iffD1] uS)
  with pos show ?thesis by (simp add: word_less_nat_alt len)
qed

lemma layout_succeeds:
  assumes ok: "abi_ok a" and h: "headers_fit a" and fits: "layout_fits a es"
  shows "\<exists>elf hp tp. writeEntries_layout a es = Inr (elf, hp, tp)"
proof -
  obtain elf0 tea where s: "writeEntries_symbols es (initFileHeader a Object_init) kTextStartAddress = (elf0, tea)"
    by (cases "writeEntries_symbols es (initFileHeader a Object_init) kTextStartAddress")
  note c1 = header_check [OF h]
  note c4 = order_check [OF ok fits s]
  have t: "kTextStartAddress + (tea - kTextStartAddress) = tea" by simp
  show ?thesis
    by (simp add: layout_defs s c1 isAligned_kTextStartAddress t isAligned_alignUp c4)
qed

section \<open>The stream\<close>

text \<open>
  A stream that accepts the bytes takes them: \<open>write\<close>, \<open>pad\<close> and
  the loop over the code of the entries.
\<close>

lemma ostream_write_accepted:
  "ostream_accepts os (length data) \<Longrightarrow> ostream_write os data = ostream_append os data"
  by (auto simp: ostream_accepts_def ostream_write_def ostream_append_def split: option.splits)

lemma ostream_accepts_append:
  "ostream_accepts os (length data + n) \<Longrightarrow> ostream_accepts (ostream_append os data) n"
  by (auto simp: ostream_accepts_def ostream_append_def split: option.splits)

lemma ostream_accepts_less:
  "ostream_accepts os (m + n) \<Longrightarrow> ostream_accepts os m"
  by (auto simp: ostream_accepts_def split: option.splits)

lemma ostream_append_append:
  "ostream_append (ostream_append os xs) ys = ostream_append os (xs @ ys)"
  by (cases "room os") (simp_all add: ostream_append_def)

lemma ostream_append_Nil: "ostream_append os [] = os"
  by (cases "room os") (simp_all add: ostream_append_def)

lemma ostream_accepts_unbounded:
  "\<not> badbit os \<Longrightarrow> \<not> failbit os \<Longrightarrow> room os = None \<Longrightarrow> ostream_accepts os n"
  by (simp add: ostream_accepts_def)

lemma write_os_accepted:
  "ostream_accepts os (length data) \<Longrightarrow> write_os os data = Inr (ostream_append os data)"
  by (simp add: write_os_def ostream_write_accepted Let_def)
     (simp add: ostream_accepts_def ostream_append_def)

lemma pad_accepted:
  "ostream_accepts os n \<Longrightarrow> pad os n = ostream_append os (replicate n 0)"
proof (induction n arbitrary: os)
  case 0
  then show ?case by (simp add: ostream_append_Nil)
next
  case (Suc n)
  from Suc.prems have a: "ostream_accepts os (length [0::byte] + n)" by simp
  then have 1: "ostream_accepts os (length [0::byte])" by (rule ostream_accepts_less)
  have "pad os (Suc n) = pad (ostream_append os [0]) n"
    by (simp add: ostream_put_def ostream_write_accepted [OF 1])
  also have "\<dots> = ostream_append (ostream_append os [0]) (replicate n 0)"
    by (rule Suc.IH) (rule ostream_accepts_append [OF a])
  finally show ?case by (simp add: ostream_append_append)
qed

lemma writeEntries_code_accepted:
  "ostream_accepts os (length (concat (map code es))) \<Longrightarrow>
     writeEntries_code os es = Inr (ostream_append os (concat (map code es)))"
proof (induction es arbitrary: os)
  case Nil
  then show ?case by (simp add: ostream_append_Nil)
next
  case (Cons e es)
  from Cons.prems have a: "ostream_accepts os (length (code e) + length (concat (map code es)))"
    by simp
  have w: "write_os os (code e) = Inr (ostream_append os (code e))"
    by (rule write_os_accepted) (rule ostream_accepts_less [OF a])
  show ?case
    by (simp add: w Cons.IH [OF ostream_accepts_append [OF a]] ostream_append_append)
qed

text \<open>
  The other direction: what a normal return says about the stream. No flag is ever
  cleared, so a stream that is good after a step was good before it and has taken all the
  bytes of the step.
\<close>

lemma ostream_write_badbit: "badbit os \<Longrightarrow> badbit (ostream_write os data)"
  by (simp add: ostream_write_def)

lemma ostream_write_failbit: "failbit (ostream_write os data) = failbit os"
  by (simp add: ostream_write_def split: option.splits)

lemma ostream_write_good:
  "\<not> badbit (ostream_write os data) \<Longrightarrow> \<not> failbit os \<Longrightarrow>
     \<not> badbit os \<and> contents (ostream_write os data) = contents os @ data"
  by (auto simp: ostream_write_def split: option.splits if_splits)

lemma write_os_Inr:
  "write_os os data = Inr os' \<Longrightarrow>
     \<not> badbit os \<and> \<not> badbit os' \<and> failbit os' = failbit os
     \<and> (\<not> failbit os \<longrightarrow> contents os' = contents os @ data)"
  by (auto simp: write_os_def Let_def ostream_write_good ostream_write_failbit
      dest: ostream_write_badbit split: if_splits)

lemma pad_failbit: "failbit (pad os n) = failbit os"
  by (induction n arbitrary: os) (simp_all add: ostream_put_def ostream_write_failbit)

lemma pad_good:
  "\<not> badbit (pad os n) \<Longrightarrow> \<not> failbit os \<Longrightarrow>
     \<not> badbit os \<and> contents (pad os n) = contents os @ replicate n 0"
proof (induction n arbitrary: os)
  case 0
  then show ?case by simp
next
  case (Suc n)
  from Suc.prems have g: "\<not> badbit (pad (ostream_put os 0) n)" by simp
  from Suc.prems have f: "\<not> failbit (ostream_put os 0)"
    by (simp add: ostream_put_def ostream_write_failbit)
  from Suc.IH [OF g f] have b: "\<not> badbit (ostream_put os 0)"
    and c: "contents (pad (ostream_put os 0) n) = contents (ostream_put os 0) @ replicate n 0"
    by simp_all
  from b Suc.prems(2) ostream_write_good [of os "[0]"] have "\<not> badbit os"
    and "contents (ostream_put os 0) = contents os @ [0]"
    by (simp_all add: ostream_put_def)
  with c show ?case by (simp add: replicate_app_Cons_same)
qed

lemma writeEntries_code_failbit:
  "writeEntries_code os es = Inr os' \<Longrightarrow> failbit os' = failbit os"
proof (induction es arbitrary: os)
  case Nil
  then show ?case by simp
next
  case (Cons e es)
  from Cons.prems obtain os1 where w: "write_os os (code e) = Inr os1"
    and r: "writeEntries_code os1 es = Inr os'"
    by (auto split: sum.splits)
  from Cons.IH [OF r] write_os_Inr [OF w] show ?case by simp
qed

lemma writeEntries_code_Inr:
  "writeEntries_code os es = Inr os' \<Longrightarrow>
     \<not> badbit os' \<Longrightarrow> \<not> failbit os \<Longrightarrow>
     \<not> badbit os \<and> contents os' = contents os @ concat (map code es)"
proof (induction es arbitrary: os)
  case Nil
  then show ?case by simp
next
  case (Cons e es)
  from Cons.prems(1) obtain os1 where w: "write_os os (code e) = Inr os1"
    and r: "writeEntries_code os1 es = Inr os'"
    by (auto split: sum.splits)
  note r1 = write_os_Inr [OF w]
  from r1 Cons.prems(3) have f: "\<not> failbit os1" by simp
  from Cons.IH [OF r Cons.prems(2) f] r1 Cons.prems(3) show ?case by simp
qed

text \<open>
  A stream in the fail state without \<open>badbit\<close> passes every check and takes nothing.
\<close>

lemma ostream_write_failed: "failbit os \<Longrightarrow> ostream_write os data = os"
  by (simp add: ostream_write_def)

lemma write_os_failed: "failbit os \<Longrightarrow> \<not> badbit os \<Longrightarrow> write_os os data = Inr os"
  by (simp add: write_os_def ostream_write_failed)

lemma pad_failed: "failbit os \<Longrightarrow> pad os n = os"
  by (induction n) (simp_all add: ostream_put_def ostream_write_failed)

lemma writeEntries_code_failed:
  "failbit os \<Longrightarrow> \<not> badbit os \<Longrightarrow> writeEntries_code os es = Inr os"
  by (induction es) (simp_all add: write_os_failed)

lemma emit_failed:
  "failbit os \<Longrightarrow> \<not> badbit os \<Longrightarrow> writeEntries_emit a os es elf hp tp = Inr os"
  by (simp add: writeEntries_emit_def write_os_failed pad_failed writeEntries_code_failed)

text \<open>
  The writing part of \<open>writeEntries\<close> as a whole, in both directions.
\<close>

lemma emit_accepted:
  assumes "ostream_accepts os
     (length (FileHeader_image a (file_header elf)
        @ concat (map (\<lambda>i. SectionHeader_image a (section_headers elf i)) all_sections)
        @ concat (map (\<lambda>i. SegmentHeader_image a (segment_headers elf i)) all_segments)
        @ replicate (unat hp) 0
        @ concat (map code es)
        @ replicate (unat tp) 0
        @ SymbolTable_bytes a (dynsym elf)
        @ StringTable_bytes (dynstr elf)
        @ StringTable_bytes (shstrtab elf)))"
  shows "writeEntries_emit a os es elf hp tp = Inr (ostream_append os
       (FileHeader_image a (file_header elf)
        @ concat (map (\<lambda>i. SectionHeader_image a (section_headers elf i)) all_sections)
        @ concat (map (\<lambda>i. SegmentHeader_image a (segment_headers elf i)) all_segments)
        @ replicate (unat hp) 0
        @ concat (map code es)
        @ replicate (unat tp) 0
        @ SymbolTable_bytes a (dynsym elf)
        @ StringTable_bytes (dynstr elf)
        @ StringTable_bytes (shstrtab elf)))"
proof -
  let ?b1 = "FileHeader_image a (file_header elf)"
  let ?b2 = "concat (map (\<lambda>i. SectionHeader_image a (section_headers elf i)) all_sections)"
  let ?b3 = "concat (map (\<lambda>i. SegmentHeader_image a (segment_headers elf i)) all_segments)"
  let ?b4 = "replicate (unat hp) (0::byte)"
  let ?b5 = "concat (map code es)"
  let ?b6 = "replicate (unat tp) (0::byte)"
  let ?b7 = "SymbolTable_bytes a (dynsym elf)"
  let ?b8 = "StringTable_bytes (dynstr elf)"
  let ?b9 = "StringTable_bytes (shstrtab elf)"
  let ?o1 = "ostream_append os ?b1"
  let ?o2 = "ostream_append ?o1 ?b2"
  let ?o3 = "ostream_append ?o2 ?b3"
  let ?o4 = "ostream_append ?o3 ?b4"
  let ?o5 = "ostream_append ?o4 ?b5"
  let ?o6 = "ostream_append ?o5 ?b6"
  let ?o7 = "ostream_append ?o6 ?b7"
  let ?o8 = "ostream_append ?o7 ?b8"
  let ?o9 = "ostream_append ?o8 ?b9"
  from assms have a1: "ostream_accepts os (length ?b1 + length (?b2 @ ?b3 @ ?b4 @ ?b5 @ ?b6 @ ?b7 @ ?b8 @ ?b9))"
    by simp
  from ostream_accepts_append [OF a1]
  have a2: "ostream_accepts ?o1 (length ?b2 + length (?b3 @ ?b4 @ ?b5 @ ?b6 @ ?b7 @ ?b8 @ ?b9))"
    by simp
  from ostream_accepts_append [OF a2]
  have a3: "ostream_accepts ?o2 (length ?b3 + length (?b4 @ ?b5 @ ?b6 @ ?b7 @ ?b8 @ ?b9))"
    by simp
  from ostream_accepts_append [OF a3]
  have a4: "ostream_accepts ?o3 (length ?b4 + length (?b5 @ ?b6 @ ?b7 @ ?b8 @ ?b9))"
    by simp
  from ostream_accepts_append [OF a4]
  have a5: "ostream_accepts ?o4 (length ?b5 + length (?b6 @ ?b7 @ ?b8 @ ?b9))"
    by simp
  from ostream_accepts_append [OF a5]
  have a6: "ostream_accepts ?o5 (length ?b6 + length (?b7 @ ?b8 @ ?b9))"
    by simp
  from ostream_accepts_append [OF a6]
  have a7: "ostream_accepts ?o6 (length ?b7 + length (?b8 @ ?b9))"
    by simp
  from ostream_accepts_append [OF a7]
  have a8: "ostream_accepts ?o7 (length ?b8 + length ?b9)"
    by simp
  from ostream_accepts_append [OF a8]
  have a9: "ostream_accepts ?o8 (length ?b9)" .
  have w1: "write_os os ?b1 = Inr ?o1"
    by (rule write_os_accepted) (rule ostream_accepts_less [OF a1])
  have w2: "write_os ?o1 ?b2 = Inr ?o2"
    by (rule write_os_accepted) (rule ostream_accepts_less [OF a2])
  have w3: "write_os ?o2 ?b3 = Inr ?o3"
    by (rule write_os_accepted) (rule ostream_accepts_less [OF a3])
  have w4: "pad ?o3 (unat hp) = ?o4"
    using pad_accepted [OF ostream_accepts_less [OF a4 [simplified length_replicate]]] .
  have w5: "writeEntries_code ?o4 es = Inr ?o5"
    by (rule writeEntries_code_accepted) (rule ostream_accepts_less [OF a5])
  have w6: "pad ?o5 (unat tp) = ?o6"
    using pad_accepted [OF ostream_accepts_less [OF a6 [simplified length_replicate]]] .
  have w7: "write_os ?o6 ?b7 = Inr ?o7"
    by (rule write_os_accepted) (rule ostream_accepts_less [OF a7])
  have w8: "write_os ?o7 ?b8 = Inr ?o8"
    by (rule write_os_accepted) (rule ostream_accepts_less [OF a8])
  have w9: "write_os ?o8 ?b9 = Inr ?o9"
    by (rule write_os_accepted) (rule a9)
  have "writeEntries_emit a os es elf hp tp = Inr ?o9"
    unfolding writeEntries_emit_def
    by (simp only: w1 w2 w3 w4 w5 w6 w7 w8 w9 sum.case)
  then show ?thesis by (simp only: ostream_append_append append_assoc)
qed

lemma emit_Inr:
  assumes "writeEntries_emit a os es elf hp tp = Inr os'" and "\<not> failbit os"
  shows "\<not> badbit os \<and> \<not> badbit os' \<and> contents os' = contents os
        @ FileHeader_image a (file_header elf)
        @ concat (map (\<lambda>i. SectionHeader_image a (section_headers elf i)) all_sections)
        @ concat (map (\<lambda>i. SegmentHeader_image a (segment_headers elf i)) all_segments)
        @ replicate (unat hp) 0
        @ concat (map code es)
        @ replicate (unat tp) 0
        @ SymbolTable_bytes a (dynsym elf)
        @ StringTable_bytes (dynstr elf)
        @ StringTable_bytes (shstrtab elf)"
proof -
  from assms(1) obtain o1 o2 o3 o5 o7 o8 where
    w1: "write_os os (FileHeader_image a (file_header elf)) = Inr o1" and
    w2: "write_os o1 (concat (map (\<lambda>i. SectionHeader_image a (section_headers elf i)) all_sections)) = Inr o2" and
    w3: "write_os o2 (concat (map (\<lambda>i. SegmentHeader_image a (segment_headers elf i)) all_segments)) = Inr o3" and
    w5: "writeEntries_code (pad o3 (unat hp)) es = Inr o5" and
    w7: "write_os (pad o5 (unat tp)) (SymbolTable_bytes a (dynsym elf)) = Inr o7" and
    w8: "write_os o7 (StringTable_bytes (dynstr elf)) = Inr o8" and
    w9: "write_os o8 (StringTable_bytes (shstrtab elf)) = Inr os'"
    unfolding writeEntries_emit_def by (auto split: sum.splits)
  note r1 = write_os_Inr [OF w1] and r2 = write_os_Inr [OF w2] and r3 = write_os_Inr [OF w3]
    and r7 = write_os_Inr [OF w7] and r8 = write_os_Inr [OF w8] and r9 = write_os_Inr [OF w9]
  from r1 r2 r3 assms(2) have f3: "\<not> failbit o3" by simp
  then have f4: "\<not> failbit (pad o3 (unat hp))" by (simp add: pad_failbit)
  with writeEntries_code_failbit [OF w5] have f5: "\<not> failbit o5" by simp
  then have f6: "\<not> failbit (pad o5 (unat tp))" by (simp add: pad_failbit)
  from r7 f5 have p6: "\<not> badbit o5"
    and c6: "contents (pad o5 (unat tp)) = contents o5 @ replicate (unat tp) 0"
    using pad_good [of o5 "unat tp"] by simp_all
  from writeEntries_code_Inr [OF w5 p6 f4] have p4: "\<not> badbit (pad o3 (unat hp))"
    and c5: "contents o5 = contents (pad o3 (unat hp)) @ concat (map code es)" by simp_all
  from pad_good [OF p4 f3] have c4: "contents (pad o3 (unat hp)) = contents o3 @ replicate (unat hp) 0"
    by simp
  from r1 r2 r3 r7 r8 r9 assms(2) f6 have
    "\<not> badbit os" "\<not> badbit os'"
    "contents o1 = contents os @ FileHeader_image a (file_header elf)"
    "contents o2 = contents o1
       @ concat (map (\<lambda>i. SectionHeader_image a (section_headers elf i)) all_sections)"
    "contents o3 = contents o2
       @ concat (map (\<lambda>i. SegmentHeader_image a (segment_headers elf i)) all_segments)"
    "contents o7 = contents (pad o5 (unat tp)) @ SymbolTable_bytes a (dynsym elf)"
    "contents o8 = contents o7 @ StringTable_bytes (dynstr elf)"
    "contents os' = contents o8 @ StringTable_bytes (shstrtab elf)"
    by simp_all
  with c4 c5 c6 show ?thesis by simp
qed

lemma emit_accepted_bytes:
  assumes "bytes = FileHeader_image a (file_header elf)
        @ concat (map (\<lambda>i. SectionHeader_image a (section_headers elf i))
            [Sec_kNull, Sec_kText, Sec_kDynsym, Sec_kDynstr, Sec_kShstrtab])
        @ concat (map (\<lambda>i. SegmentHeader_image a (segment_headers elf i))
            [Seg_kText, Seg_kReadonly])
        @ replicate (unat hp) 0
        @ concat (map code es)
        @ replicate (unat tp) 0
        @ SymbolTable_bytes a (dynsym elf)
        @ StringTable_bytes (dynstr elf)
        @ StringTable_bytes (shstrtab elf)"
    and "ostream_accepts os (length bytes)"
  shows "writeEntries_emit a os es elf hp tp = Inr (ostream_append os bytes)"
  using emit_accepted [of os a elf hp es tp] assms(2)
  unfolding assms(1) all_sections_def all_segments_def .

lemma emit_Inr_bytes:
  assumes "bytes = FileHeader_image a (file_header elf)
        @ concat (map (\<lambda>i. SectionHeader_image a (section_headers elf i))
            [Sec_kNull, Sec_kText, Sec_kDynsym, Sec_kDynstr, Sec_kShstrtab])
        @ concat (map (\<lambda>i. SegmentHeader_image a (segment_headers elf i))
            [Seg_kText, Seg_kReadonly])
        @ replicate (unat hp) 0
        @ concat (map code es)
        @ replicate (unat tp) 0
        @ SymbolTable_bytes a (dynsym elf)
        @ StringTable_bytes (dynstr elf)
        @ StringTable_bytes (shstrtab elf)"
    and "writeEntries_emit a os es elf hp tp = Inr os'" and "\<not> failbit os"
  shows "\<not> badbit os \<and> \<not> badbit os' \<and> contents os' = contents os @ bytes"
  using emit_Inr [OF assms(2,3)]
  unfolding assms(1) all_sections_def all_segments_def .

lemma writeEntries_succeeds:
  assumes "abi_ok a" and "headers_fit a" and "layout_fits a es"
    and "\<not> badbit os" and "\<not> failbit os" and "room os = None"
  shows "\<exists>os'. writeEntries a os es = Inr os'"
proof -
  from layout_succeeds [OF assms(1-3)]
  obtain elf hp tp where l: "writeEntries_layout a es = Inr (elf, hp, tp)" by blast
  from emit_accepted [OF ostream_accepts_unbounded [OF assms(4,5,6)]] l
  show ?thesis by (simp only: writeEntries_def sum.case prod.case) blast
qed

lemma writeEntries_Inr_good:
  assumes "writeEntries a os es = Inr os'"
  shows "\<not> badbit os \<and> \<not> badbit os'"
proof -
  from assms obtain elf hp tp where "writeEntries_emit a os es elf hp tp = Inr os'"
    by (auto simp: writeEntries_def split: sum.splits)
  then obtain o1 o8 where
    w1: "write_os os (FileHeader_image a (file_header elf)) = Inr o1" and
    w9: "write_os o8 (StringTable_bytes (shstrtab elf)) = Inr os'"
    unfolding writeEntries_emit_def by (auto split: sum.splits)
  from write_os_Inr [OF w1] write_os_Inr [OF w9] show ?thesis by simp
qed

lemma writeEntries_failed:
  assumes "writeEntries_layout a es = Inr (elf, hp, tp)" and "failbit os" and "\<not> badbit os"
  shows "writeEntries a os es = Inr os"
  by (simp add: writeEntries_def assms(1) emit_failed [OF assms(2,3)])

section \<open>What the layout returns\<close>

text \<open>
  The headers and the bytes of a layout that returned normally.
\<close>

lemma layout_text_section:
  assumes "writeEntries_layout a entries = Inr (elf, header_padding, text_padding)"
  shows "sh_type (section_headers elf Sec_kText) = kProgram
    \<and> sh_flags (section_headers elf Sec_kText) = {kSectionAlloc, kSectionExecutable}
    \<and> sh_align (section_headers elf Sec_kText) = 16
    \<and> sh_size (section_headers elf Sec_kText) =
         of_nat (sum_list (map (\<lambda>e. length (code e)) entries))
    \<and> sh_offset (section_headers elf Sec_kText) = sh_address (section_headers elf Sec_kText)
    \<and> sh_offset (section_headers elf Sec_kText) = 0x1000
    \<and> (sum_list (map (\<lambda>e. length (code e)) entries) < 2 ^ 64 \<longrightarrow>
         unat (sh_size (section_headers elf Sec_kText)) =
           sum_list (map (\<lambda>e. length (code e)) entries))"
proof -
  obtain elf0 tea where
    s: "writeEntries_symbols entries (initFileHeader a Object_init) kTextStartAddress = (elf0, tea)"
    by (cases "writeEntries_symbols entries (initFileHeader a Object_init) kTextStartAddress")
  have size: "tea - kTextStartAddress = of_nat (sum_list (map (\<lambda>e. length (code e)) entries))"
    using symbols_end [OF s] by simp
  note h = layout_parts(2) [OF assms s]
  have 1: "sh_size (section_headers elf Sec_kText) =
      of_nat (sum_list (map (\<lambda>e. length (code e)) entries))"
    by (simp add: h size)
  have 2: "sh_offset (section_headers elf Sec_kText) = 0x1000"
    and 3: "sh_address (section_headers elf Sec_kText) = 0x1000"
    by (simp_all add: h kTextStartAddress_def kPageSize_def)
  show ?thesis
    by (simp add: 1 2 3 unat_of_nat) (simp add: h)
qed

lemma layout_dynsym_section:
  assumes "writeEntries_layout a entries = Inr (elf, header_padding, text_padding)"
  shows "sh_type (section_headers elf Sec_kDynsym) = kSymbolTable
    \<and> sh_flags (section_headers elf Sec_kDynsym) = {kSectionAlloc, kSectionInfoLink}
    \<and> sh_link (section_headers elf Sec_kDynsym) = of_nat (raw_SectionIdx Sec_kDynstr)
    \<and> sh_info (section_headers elf Sec_kDynsym) = 1
    \<and> sh_entry_size (section_headers elf Sec_kDynsym) = of_nat (sizeof_Symbol a)
    \<and> sh_size (section_headers elf Sec_kDynsym) = of_nat (length (SymbolTable_bytes a (dynsym elf)))"
proof -
  obtain elf0 tea where
    s: "writeEntries_symbols entries (initFileHeader a Object_init) kTextStartAddress = (elf0, tea)"
    by (cases "writeEntries_symbols entries (initFileHeader a Object_init) kTextStartAddress")
  show ?thesis
    by (simp add: layout_parts(3) [OF assms s] layout_parts(6) [OF assms s])
qed

lemma layout_readonly_segment:
  assumes l: "writeEntries_layout a entries = Inr (elf, header_padding, text_padding)"
  shows "seg_type (segment_headers elf Seg_kReadonly) = kLoadableSegment
     \<and> seg_flags (segment_headers elf Seg_kReadonly) = {kSegmentReadable}
     \<and> seg_offset (segment_headers elf Seg_kReadonly) = sh_offset (section_headers elf Sec_kDynsym)
     \<and> seg_address (segment_headers elf Seg_kReadonly) = sh_address (section_headers elf Sec_kDynsym)
     \<and> seg_file_size (segment_headers elf Seg_kReadonly) =
         sh_size (section_headers elf Sec_kDynsym) + sh_size (section_headers elf Sec_kDynstr)
     \<and> seg_mem_size (segment_headers elf Seg_kReadonly) =
         sh_size (section_headers elf Sec_kDynsym) + sh_size (section_headers elf Sec_kDynstr)
     \<and> sh_address (section_headers elf Sec_kDynsym) < sh_address (section_headers elf Sec_kDynstr)"
proof -
  obtain elf0 tea where
    s: "writeEntries_symbols entries (initFileHeader a Object_init) kTextStartAddress = (elf0, tea)"
    by (cases "writeEntries_symbols entries (initFileHeader a Object_init) kTextStartAddress")
  note c = layout_checks(4) [OF l s]
  then show ?thesis by (simp add: layout_parts(3,4,5) [OF l s])
qed

lemma layout_byte_stream:
  assumes "writeEntries_layout a entries = Inr (elf, header_padding, text_padding)"
  shows "let bytes = FileHeader_image a (file_header elf)
        @ concat (map (\<lambda>i. SectionHeader_image a (section_headers elf i))
            [Sec_kNull, Sec_kText, Sec_kDynsym, Sec_kDynstr, Sec_kShstrtab])
        @ concat (map (\<lambda>i. SegmentHeader_image a (segment_headers elf i))
            [Seg_kText, Seg_kReadonly])
        @ replicate (unat header_padding) 0
        @ concat (map code entries)
        @ replicate (unat text_padding) 0
        @ SymbolTable_bytes a (dynsym elf)
        @ StringTable_bytes (dynstr elf)
        @ StringTable_bytes (shstrtab elf)
     in (ostream_accepts os (length bytes) \<longrightarrow>
           writeEntries a os entries = Inr (ostream_append os bytes))
      \<and> (\<forall>os'. \<not> failbit os \<and> writeEntries a os entries = Inr os' \<longrightarrow>
            contents os' = contents os @ bytes)
      \<and> section_headers elf Sec_kNull = SectionHeader_init
      \<and> header_padding =
          alignUp (of_nat (offsetof_header_stop a)) - of_nat (offsetof_header_stop a)
      \<and> text_padding =
          alignUp (sh_offset (section_headers elf Sec_kText) + sh_size (section_headers elf Sec_kText))
          - (sh_offset (section_headers elf Sec_kText) + sh_size (section_headers elf Sec_kText))"
proof -
  obtain elf0 tea where
    s: "writeEntries_symbols entries (initFileHeader a Object_init) kTextStartAddress = (elf0, tea)"
    by (cases "writeEntries_symbols entries (initFileHeader a Object_init) kTextStartAddress")
  have w: "writeEntries a os entries = writeEntries_emit a os entries elf header_padding text_padding"
    by (simp add: writeEntries_def assms)
  have n: "section_headers elf Sec_kNull = SectionHeader_init"
    by (simp add: layout_parts(1) [OF assms s] symbols_Null_header [OF s])
  have hp: "header_padding =
          alignUp (of_nat (offsetof_header_stop a)) - of_nat (offsetof_header_stop a)"
    by (simp add: layout_checks(1,2) [OF assms s])
  have tp: "text_padding =
          alignUp (sh_offset (section_headers elf Sec_kText) + sh_size (section_headers elf Sec_kText))
          - (sh_offset (section_headers elf Sec_kText) + sh_size (section_headers elf Sec_kText))"
    by (simp add: layout_parts(2) [OF assms s] layout_checks(3) [OF assms s])
  define bytes where "bytes = FileHeader_image a (file_header elf)
        @ concat (map (\<lambda>i. SectionHeader_image a (section_headers elf i))
            [Sec_kNull, Sec_kText, Sec_kDynsym, Sec_kDynstr, Sec_kShstrtab])
        @ concat (map (\<lambda>i. SegmentHeader_image a (segment_headers elf i))
            [Seg_kText, Seg_kReadonly])
        @ replicate (unat header_padding) 0
        @ concat (map code entries)
        @ replicate (unat text_padding) 0
        @ SymbolTable_bytes a (dynsym elf)
        @ StringTable_bytes (dynstr elf)
        @ StringTable_bytes (shstrtab elf)"
  have acc: "ostream_accepts os (length bytes) \<longrightarrow>
           writeEntries a os entries = Inr (ostream_append os bytes)"
    unfolding w using emit_accepted_bytes [OF bytes_def] by blast
  have ret: "\<forall>os'. \<not> failbit os \<and> writeEntries a os entries = Inr os' \<longrightarrow>
            contents os' = contents os @ bytes"
    unfolding w using emit_Inr_bytes [OF bytes_def] by blast
  from acc ret n hp tp show ?thesis
    unfolding Let_def bytes_def by blast
qed

section \<open>The empty list of entries\<close>

text \<open>
  The workspace that the layout returns for no entries, in full, and where the tables lie
  in the bytes that are written.
\<close>

lemma empty_layout:
  assumes l: "writeEntries_layout a [] = Inr (elf, hp, tp)"
  shows "file_header elf =
        \<lparr>segment_header_offset = of_nat (offsetof_segment_headers a),
         segment_header_count = 2,
         section_header_offset = of_nat (offsetof_section_headers a),
         section_header_count = 5,
         section_name_index = 4\<rparr>"
    and "section_headers elf Sec_kNull = SectionHeader_init"
    and "section_headers elf Sec_kText =
        \<lparr>sh_name_offset = 1, sh_type = kProgram,
         sh_flags = {kSectionAlloc, kSectionExecutable},
         sh_address = 0x1000, sh_offset = 0x1000, sh_size = 0,
         sh_link = 0, sh_info = 0, sh_align = 16, sh_entry_size = 0\<rparr>"
    and "section_headers elf Sec_kDynsym =
        \<lparr>sh_name_offset = 7, sh_type = kSymbolTable,
         sh_flags = {kSectionAlloc, kSectionInfoLink},
         sh_address = 0x1000, sh_offset = 0x1000,
         sh_size = of_nat (length (Symbol_image a Symbol_init)),
         sh_link = 3, sh_info = 1, sh_align = 0,
         sh_entry_size = of_nat (sizeof_Symbol a)\<rparr>"
    and "section_headers elf Sec_kDynstr =
        \<lparr>sh_name_offset = 15, sh_type = kStringTable,
         sh_flags = {kSectionAlloc},
         sh_address = 0x1000 + of_nat (length (Symbol_image a Symbol_init)),
         sh_offset = 0x1000 + of_nat (length (Symbol_image a Symbol_init)),
         sh_size = 1,
         sh_link = 0, sh_info = 0, sh_align = 0, sh_entry_size = 0\<rparr>"
    and "section_headers elf Sec_kShstrtab =
        \<lparr>sh_name_offset = 23, sh_type = kStringTable,
         sh_flags = {},
         sh_address = 0,
         sh_offset = 0x1000 + of_nat (length (Symbol_image a Symbol_init)) + 1,
         sh_size = 33,
         sh_link = 0, sh_info = 0, sh_align = 0, sh_entry_size = 0\<rparr>"
    and "segment_headers elf Seg_kText =
        \<lparr>seg_type = kLoadableSegment,
         seg_flags = {kSegmentExecutable, kSegmentReadable},
         seg_offset = 0x1000, seg_address = 0x1000,
         seg_file_size = 0, seg_mem_size = 0, seg_align = 0x1000\<rparr>"
    and "segment_headers elf Seg_kReadonly =
        \<lparr>seg_type = kLoadableSegment,
         seg_flags = {kSegmentReadable},
         seg_offset = 0x1000, seg_address = 0x1000,
         seg_file_size = of_nat (length (Symbol_image a Symbol_init)) + 1,
         seg_mem_size = of_nat (length (Symbol_image a Symbol_init)) + 1,
         seg_align = 0x1000\<rparr>"
    and "dynsym elf = [Symbol_init]"
    and "dynstr elf = [0]"
    and "shstrtab elf = 0 # map of_char ''.text'' @ 0 # map of_char ''.dynsym''
           @ 0 # map of_char ''.dynstr'' @ 0 # map of_char ''.shstrtab'' @ [0]"
    and "hp = kTextStartAddress - of_nat (offsetof_header_stop a)"
    and "tp = 0"
proof -
  have s: "writeEntries_symbols [] (initFileHeader a Object_init) kTextStartAddress
      = (initFileHeader a Object_init, kTextStartAddress)" by simp
  have al: "alignUp kTextStartAddress = kTextStartAddress"
    using isAligned_kTextStartAddress by (simp add: isAligned_def)
  note r = layout_result [OF l s, unfolded al]
  note d = initFileHeader_def Object_init_def FileHeader_init_def SectionHeader_init_def
    SegmentHeader_init_def SymbolTable_init_def StringTable_init_def SymbolTable_bytes_def
    kTextStartAddress_def kPageSize_def SectionIdx_kTotal_def SegmentIdx_kTotal_def
    all_sections_def all_segments_def
  from r show "file_header elf =
        \<lparr>segment_header_offset = of_nat (offsetof_segment_headers a),
         segment_header_count = 2,
         section_header_offset = of_nat (offsetof_section_headers a),
         section_header_count = 5,
         section_name_index = 4\<rparr>"
    by (simp add: d)
  from r show "section_headers elf Sec_kNull = SectionHeader_init" by (simp add: d)
  from r show "section_headers elf Sec_kText =
        \<lparr>sh_name_offset = 1, sh_type = kProgram,
         sh_flags = {kSectionAlloc, kSectionExecutable},
         sh_address = 0x1000, sh_offset = 0x1000, sh_size = 0,
         sh_link = 0, sh_info = 0, sh_align = 16, sh_entry_size = 0\<rparr>"
    by (simp add: d)
  from r show "section_headers elf Sec_kDynsym =
        \<lparr>sh_name_offset = 7, sh_type = kSymbolTable,
         sh_flags = {kSectionAlloc, kSectionInfoLink},
         sh_address = 0x1000, sh_offset = 0x1000,
         sh_size = of_nat (length (Symbol_image a Symbol_init)),
         sh_link = 3, sh_info = 1, sh_align = 0,
         sh_entry_size = of_nat (sizeof_Symbol a)\<rparr>"
    by (simp add: d)
  from r show "section_headers elf Sec_kDynstr =
        \<lparr>sh_name_offset = 15, sh_type = kStringTable,
         sh_flags = {kSectionAlloc},
         sh_address = 0x1000 + of_nat (length (Symbol_image a Symbol_init)),
         sh_offset = 0x1000 + of_nat (length (Symbol_image a Symbol_init)),
         sh_size = 1,
         sh_link = 0, sh_info = 0, sh_align = 0, sh_entry_size = 0\<rparr>"
    by (simp add: d)
  from r show "section_headers elf Sec_kShstrtab =
        \<lparr>sh_name_offset = 23, sh_type = kStringTable,
         sh_flags = {},
         sh_address = 0,
         sh_offset = 0x1000 + of_nat (length (Symbol_image a Symbol_init)) + 1,
         sh_size = 33,
         sh_link = 0, sh_info = 0, sh_align = 0, sh_entry_size = 0\<rparr>"
    by (simp add: d)
  from r show "segment_headers elf Seg_kText =
        \<lparr>seg_type = kLoadableSegment,
         seg_flags = {kSegmentExecutable, kSegmentReadable},
         seg_offset = 0x1000, seg_address = 0x1000,
         seg_file_size = 0, seg_mem_size = 0, seg_align = 0x1000\<rparr>"
    by (simp add: d)
  from r show "segment_headers elf Seg_kReadonly =
        \<lparr>seg_type = kLoadableSegment,
         seg_flags = {kSegmentReadable},
         seg_offset = 0x1000, seg_address = 0x1000,
         seg_file_size = of_nat (length (Symbol_image a Symbol_init)) + 1,
         seg_mem_size = of_nat (length (Symbol_image a Symbol_init)) + 1,
         seg_align = 0x1000\<rparr>"
    by (simp add: d)
  from r show "dynsym elf = [Symbol_init]" by (simp add: d)
  from r show "dynstr elf = [0]" by (simp add: d)
  from r show "shstrtab elf = 0 # map of_char ''.text'' @ 0 # map of_char ''.dynsym''
           @ 0 # map of_char ''.dynstr'' @ 0 # map of_char ''.shstrtab'' @ [0]"
    by (simp add: d)
  from r show "hp = kTextStartAddress - of_nat (offsetof_header_stop a)" by simp
  from r show "tp = 0" by simp
qed

lemma unat_kTextStartAddress_minus:
  assumes "n \<le> 4096"
  shows "unat (kTextStartAddress - of_nat n) = 4096 - n"
proof -
  from assms have u: "unat (of_nat n :: u64) = n" by (simp add: unat_of_nat)
  with assms have "(of_nat n :: u64) \<le> kTextStartAddress"
    by (simp add: word_le_nat_alt kTextStartAddress_def kPageSize_def)
  then have "unat (kTextStartAddress - of_nat n) = unat kTextStartAddress - unat (of_nat n :: u64)"
    by (rule unat_sub)
  then show ?thesis by (simp add: u kTextStartAddress_def kPageSize_def)
qed

lemma file_range_at:
  assumes "length pre = unat offset" and "length xs = unat len"
  shows "file_range (pre @ xs @ post) offset len = xs"
  using assms by (simp add: file_range_def)

lemma empty_stream:
  assumes l: "writeEntries_layout a [] = Inr (elf, hp, tp)"
    and sized: "images_sized a" and fit: "headers_fit a"
    and bound: "4096 + length (Symbol_image a Symbol_init) + 34 < 2 ^ 64"
    and bytes: "bytes = FileHeader_image a (file_header elf)
        @ concat (map (\<lambda>i. SectionHeader_image a (section_headers elf i))
            [Sec_kNull, Sec_kText, Sec_kDynsym, Sec_kDynstr, Sec_kShstrtab])
        @ concat (map (\<lambda>i. SegmentHeader_image a (segment_headers elf i))
            [Seg_kText, Seg_kReadonly])
        @ replicate (unat hp) 0
        @ concat (map code [])
        @ replicate (unat tp) 0
        @ SymbolTable_bytes a (dynsym elf)
        @ StringTable_bytes (dynstr elf)
        @ StringTable_bytes (shstrtab elf)"
  shows "length bytes = 4096 + length (Symbol_image a Symbol_init) + 34"
    and "file_range bytes 0 (of_nat (sizeof_FileHeader a)) = FileHeader_image a (file_header elf)"
    and "file_range bytes (section_header_offset (file_header elf))
           (of_nat (SectionIdx_kTotal * sizeof_SectionHeader))
         = concat (map (\<lambda>i. SectionHeader_image a (section_headers elf i))
            [Sec_kNull, Sec_kText, Sec_kDynsym, Sec_kDynstr, Sec_kShstrtab])"
    and "file_range bytes (segment_header_offset (file_header elf))
           (of_nat (SegmentIdx_kTotal * sizeof_SegmentHeader))
         = concat (map (\<lambda>i. SegmentHeader_image a (segment_headers elf i))
            [Seg_kText, Seg_kReadonly])"
    and "file_range bytes (sh_offset (section_headers elf Sec_kText))
           (sh_size (section_headers elf Sec_kText)) = concat (map code [])"
    and "file_range bytes (sh_offset (section_headers elf Sec_kDynsym))
           (sh_size (section_headers elf Sec_kDynsym)) = SymbolTable_bytes a (dynsym elf)"
    and "file_range bytes (sh_offset (section_headers elf Sec_kDynstr))
           (sh_size (section_headers elf Sec_kDynstr)) = StringTable_bytes (dynstr elf)"
    and "file_range bytes (sh_offset (section_headers elf Sec_kShstrtab))
           (sh_size (section_headers elf Sec_kShstrtab)) = StringTable_bytes (shstrtab elf)"
proof -
  note e = empty_layout [OF l]
  define sz where "sz = length (Symbol_image a Symbol_init)"
  define FH where "FH = FileHeader_image a (file_header elf)"
  define SH where "SH = concat (map (\<lambda>i. SectionHeader_image a (section_headers elf i))
            [Sec_kNull, Sec_kText, Sec_kDynsym, Sec_kDynstr, Sec_kShstrtab])"
  define SG where "SG = concat (map (\<lambda>i. SegmentHeader_image a (segment_headers elf i))
            [Seg_kText, Seg_kReadonly])"
  define PD where "PD = replicate (unat hp) (0 :: byte)"
  define S where "S = SymbolTable_bytes a (dynsym elf)"
  define D where "D = StringTable_bytes (dynstr elf)"
  define N where "N = StringTable_bytes (shstrtab elf)"
  from fit have hs: "sizeof_FileHeader a + 432 \<le> 4096"
    by (simp add: headers_fit_def offsetof_header_stop_def offsetof_segment_headers_def
      offsetof_section_headers_def SectionIdx_kTotal_def SegmentIdx_kTotal_def all_sections_def
      all_segments_def sizeof_SectionHeader_def sizeof_SegmentHeader_def kPageSize_def)
  have hs': "offsetof_header_stop a = sizeof_FileHeader a + 432"
    by (simp add: offsetof_header_stop_def offsetof_segment_headers_def
      offsetof_section_headers_def SectionIdx_kTotal_def SegmentIdx_kTotal_def all_sections_def
      all_segments_def sizeof_SectionHeader_def sizeof_SegmentHeader_def)
  from sized have lFH: "length FH = sizeof_FileHeader a"
    and lSH: "length SH = 320" and lSG: "length SG = 112"
    by (simp_all add: images_sized_def FH_def SH_def SG_def sizeof_SectionHeader_def
      sizeof_SegmentHeader_def)
  from fit have "offsetof_header_stop a \<le> 4096"
    by (simp add: headers_fit_def kPageSize_def)
  then have "unat (kTextStartAddress - of_nat (offsetof_header_stop a)) =
      4096 - offsetof_header_stop a"
    by (rule unat_kTextStartAddress_minus)
  then have uhp: "unat hp = 4096 - offsetof_header_stop a" by (simp only: e(12))
  have lPD: "length PD = 4096 - (sizeof_FileHeader a + 432)"
    by (simp add: PD_def uhp hs')
  have lS: "length S = sz" by (simp add: S_def e(9) SymbolTable_bytes_def sz_def)
  have lD: "length D = 1" by (simp add: D_def e(10) StringTable_bytes_def)
  have lN: "length N = 33" by (simp add: N_def e(11) StringTable_bytes_def)
  have b: "bytes = FH @ SH @ SG @ PD @ S @ D @ N"
    by (simp add: bytes FH_def SH_def SG_def PD_def S_def D_def N_def e(13))
  from bound have bd: "4096 + sz + 34 < 2 ^ 64" by (simp add: sz_def)
  then have usz: "unat (of_nat sz :: u64) = sz" by (simp add: unat_of_nat)
  from bd have u1: "unat (0x1000 + of_nat sz :: u64) = 4096 + sz"
    by (simp add: unat_word_ariths usz)
  from bd have u2: "unat (4097 + of_nat sz :: u64) = 4097 + sz"
    by (simp add: unat_word_ariths usz)
  from hs have uf: "unat (of_nat (sizeof_FileHeader a) :: u64) = sizeof_FileHeader a"
    by (simp add: unat_of_nat)
  from hs have ug: "unat (of_nat (sizeof_FileHeader a) + 320 :: u64) = sizeof_FileHeader a + 320"
    by (simp add: unat_word_ariths uf)
  show "length bytes = 4096 + length (Symbol_image a Symbol_init) + 34"
    using hs by (simp add: b lFH lSH lSG lPD lS lD lN sz_def)
  show "file_range bytes 0 (of_nat (sizeof_FileHeader a)) = FileHeader_image a (file_header elf)"
    unfolding FH_def [symmetric]
    using file_range_at [of "[]" 0 FH "of_nat (sizeof_FileHeader a)" "SH @ SG @ PD @ S @ D @ N"]
    by (simp add: b lFH uf)
  show "file_range bytes (section_header_offset (file_header elf))
           (of_nat (SectionIdx_kTotal * sizeof_SectionHeader))
         = concat (map (\<lambda>i. SectionHeader_image a (section_headers elf i))
            [Sec_kNull, Sec_kText, Sec_kDynsym, Sec_kDynstr, Sec_kShstrtab])"
    unfolding SH_def [symmetric]
    using file_range_at [of FH "of_nat (sizeof_FileHeader a)" SH 320 "SG @ PD @ S @ D @ N"]
    by (simp add: b lFH lSH uf e(1) offsetof_section_headers_def SectionIdx_kTotal_def
      all_sections_def sizeof_SectionHeader_def)
  show "file_range bytes (segment_header_offset (file_header elf))
           (of_nat (SegmentIdx_kTotal * sizeof_SegmentHeader))
         = concat (map (\<lambda>i. SegmentHeader_image a (segment_headers elf i))
            [Seg_kText, Seg_kReadonly])"
    unfolding SG_def [symmetric]
    using file_range_at [of "FH @ SH" "of_nat (sizeof_FileHeader a) + 320" SG 112 "PD @ S @ D @ N"]
    by (simp add: b lFH lSH lSG ug e(1) offsetof_segment_headers_def offsetof_section_headers_def
      SectionIdx_kTotal_def SegmentIdx_kTotal_def all_sections_def all_segments_def
      sizeof_SectionHeader_def sizeof_SegmentHeader_def)
  show "file_range bytes (sh_offset (section_headers elf Sec_kText))
           (sh_size (section_headers elf Sec_kText)) = concat (map code [])"
    by (simp add: e(3) file_range_def)
  show "file_range bytes (sh_offset (section_headers elf Sec_kDynsym))
           (sh_size (section_headers elf Sec_kDynsym)) = SymbolTable_bytes a (dynsym elf)"
    unfolding S_def [symmetric]
    using file_range_at [of "FH @ SH @ SG @ PD" "0x1000" S "of_nat sz" "D @ N"] hs
    by (simp add: b lFH lSH lSG lPD lS usz e(4) sz_def [symmetric])
  show "file_range bytes (sh_offset (section_headers elf Sec_kDynstr))
           (sh_size (section_headers elf Sec_kDynstr)) = StringTable_bytes (dynstr elf)"
    unfolding D_def [symmetric]
    using file_range_at [of "FH @ SH @ SG @ PD @ S" "0x1000 + of_nat sz" D 1 N] hs
    by (simp add: b lFH lSH lSG lPD lS lD u1 e(5) sz_def [symmetric])
  show "file_range bytes (sh_offset (section_headers elf Sec_kShstrtab))
           (sh_size (section_headers elf Sec_kShstrtab)) = StringTable_bytes (shstrtab elf)"
    unfolding N_def [symmetric]
    using file_range_at [of "FH @ SH @ SG @ PD @ S @ D" "0x1000 + of_nat sz + 1" N 33 "[]"] hs
    by (simp add: b lFH lSH lSG lPD lS lD lN u2 e(6) sz_def [symmetric])
qed


section \<open>The sample parameters\<close>

lemma elf64_abi_ok: "abi_ok elf64"
  by (simp add: abi_ok_def elf64_def)

lemma elf64_headers_fit: "headers_fit elf64"
  by (simp add: headers_fit_def elf64_def offsetof_header_stop_def offsetof_segment_headers_def
      offsetof_section_headers_def SectionIdx_kTotal_def SegmentIdx_kTotal_def all_sections_def
      all_segments_def sizeof_SectionHeader_def sizeof_SegmentHeader_def kPageSize_def)

lemma elf64_fits_foo_bar: "layout_fits elf64 foo_bar"
  by (simp add: layout_fits_def elf64_def foo_bar_def kTextStartAddress_def kPageSize_def)

lemma elf64_fits_Nil: "layout_fits elf64 []"
  by (simp add: layout_fits_def elf64_def kTextStartAddress_def kPageSize_def)

lemma elf64_images_sized: "images_sized elf64"
  by (simp add: images_sized_def elf64_def sizeof_SectionHeader_def sizeof_SegmentHeader_def)

section \<open>Properties of \<open>writeEntries\<close>\<close>

text \<open>
  C1. For every list of entries the first loop of \<open>writeEntries\<close> appends
  exactly one symbol per entry after the null symbol, in the order of the entries. The
  symbol of entry \<open>i\<close> has binding Global and type Function, the index of the
  Text section, the address \<open>kTextStartAddress\<close> (one page,
  \<open>0x1000\<close>) plus the sum of the code lengths of the entries before it, and
  the code length of its entry as size. The Text size, the final address minus the base,
  is the sum of all code lengths. The sums are taken in the 64-bit arithmetic of the
  source; where the base plus the total code length is below \<open>2 ^ 64\<close> they
  are the sums of natural numbers. A layout that returns normally keeps these symbols and
  records this size in the Text section header.
\<close>

theorem writeEntries_symbol_layout:
  assumes "writeEntries_symbols entries (initFileHeader a Object_init) kTextStartAddress
             = (elf0, text_end_address)"
  shows "kTextStartAddress = 0x1000
    \<and> length (dynsym elf0) = 1 + length entries
    \<and> (\<forall>i<length entries.
          sym_info (dynsym elf0 ! (1 + i)) = {kGlobal, kFunc}
        \<and> sym_section_index (dynsym elf0 ! (1 + i)) = of_nat (raw_SectionIdx Sec_kText)
        \<and> sym_address (dynsym elf0 ! (1 + i)) =
            kTextStartAddress + of_nat (sum_list (map (\<lambda>e. length (code e)) (take i entries)))
        \<and> sym_size (dynsym elf0 ! (1 + i)) = of_nat (length (code (entries ! i))))
    \<and> text_end_address - kTextStartAddress =
         of_nat (sum_list (map (\<lambda>e. length (code e)) entries))
    \<and> (unat kTextStartAddress + sum_list (map (\<lambda>e. length (code e)) entries) < 2 ^ 64 \<longrightarrow>
         unat (text_end_address - kTextStartAddress) =
           sum_list (map (\<lambda>e. length (code e)) entries)
       \<and> (\<forall>i<length entries.
            unat (sym_address (dynsym elf0 ! (1 + i))) =
              unat kTextStartAddress + sum_list (map (\<lambda>e. length (code e)) (take i entries))
          \<and> unat (sym_size (dynsym elf0 ! (1 + i))) = length (code (entries ! i))))
    \<and> (\<forall>elf header_padding text_padding.
         writeEntries_layout a entries = Inr (elf, header_padding, text_padding) \<longrightarrow>
           dynsym elf = dynsym elf0
         \<and> sh_size (section_headers elf Sec_kText) = text_end_address - kTextStartAddress)"
proof -
  let ?len = "\<lambda>e. length (code e)"
  have d1: "length (dynsym (initFileHeader a Object_init)) = 1"
    by (simp add: initFileHeader_def Object_init_def SymbolTable_init_def)
  have nth: "dynsym elf0 ! Suc i =
       \<lparr>sym_name_offset = of_nat (length (dynstr (initFileHeader a Object_init)) +
           sum_list (map (\<lambda>e. length (func_name e) + 1) (take i entries))),
        sym_info = {kGlobal, kFunc},
        sym_section_index = 1,
        sym_address = kTextStartAddress + of_nat (sum_list (map ?len (take i entries))),
        sym_size = of_nat (length (code (entries ! i)))\<rparr>" if "i < length entries" for i
    using symbols_nth [OF assms that] by (simp add: d1)
  have size: "text_end_address - kTextStartAddress = of_nat (sum_list (map ?len entries))"
    using symbols_end [OF assms] by simp
  have c1: "kTextStartAddress = 0x1000" by (simp add: kTextStartAddress_def kPageSize_def)
  have c2: "length (dynsym elf0) = 1 + length entries" by (rule symbols_init_length(1) [OF assms])
  have c3: "\<forall>i<length entries.
          sym_info (dynsym elf0 ! (1 + i)) = {kGlobal, kFunc}
        \<and> sym_section_index (dynsym elf0 ! (1 + i)) = of_nat (raw_SectionIdx Sec_kText)
        \<and> sym_address (dynsym elf0 ! (1 + i)) =
            kTextStartAddress + of_nat (sum_list (map ?len (take i entries)))
        \<and> sym_size (dynsym elf0 ! (1 + i)) = of_nat (length (code (entries ! i)))"
    by (simp add: nth)
  have c5: "unat (text_end_address - kTextStartAddress) = sum_list (map ?len entries)
       \<and> (\<forall>i<length entries.
            unat (sym_address (dynsym elf0 ! (1 + i))) =
              unat kTextStartAddress + sum_list (map ?len (take i entries))
          \<and> unat (sym_size (dynsym elf0 ! (1 + i))) = length (code (entries ! i)))"
    if b: "unat kTextStartAddress + sum_list (map ?len entries) < 2 ^ 64"
  proof (intro conjI allI impI)
    from b show "unat (text_end_address - kTextStartAddress) = sum_list (map ?len entries)"
      by (simp add: size unat_of_nat)
  next
    fix i assume i: "i < length entries"
    have "sum_list (map ?len (take i entries)) \<le> sum_list (map ?len entries)"
      by (rule sum_take_le)
    with b have "unat kTextStartAddress + sum_list (map ?len (take i entries)) < 2 ^ 64" by simp
    from unat_base_plus [OF this]
    show "unat (sym_address (dynsym elf0 ! (1 + i))) =
              unat kTextStartAddress + sum_list (map ?len (take i entries))"
      by (simp add: nth [OF i])
  next
    fix i assume i: "i < length entries"
    have "length (code (entries ! i)) \<le> sum_list (map ?len entries)"
      using i by (simp add: member_le_sum_list)
    with b have "length (code (entries ! i)) < 2 ^ 64" by simp
    then show "unat (sym_size (dynsym elf0 ! (1 + i))) = length (code (entries ! i))"
      by (simp add: nth [OF i] unat_of_nat)
  qed
  have c6: "\<forall>elf header_padding text_padding.
         writeEntries_layout a entries = Inr (elf, header_padding, text_padding) \<longrightarrow>
           dynsym elf = dynsym elf0
         \<and> sh_size (section_headers elf Sec_kText) = text_end_address - kTextStartAddress"
    using layout_parts(2,6) [OF _ assms] by fastforce
  from c1 c2 c3 size c5 c6 show ?thesis by blast
qed

text \<open>
  The entries \<open>foo\<close> (16 bytes) and \<open>bar\<close> (32 bytes):
  \<open>bar\<close> is at \<open>0x1010\<close> with size 32, and the Text section has
  size 48.
\<close>

theorem writeEntries_symbol_layout_witness:
  "sym_address (dynsym (fst (writeEntries_symbols foo_bar (initFileHeader elf64 Object_init)
       kTextStartAddress)) ! 2) = 0x1010
   \<and> unat (sym_size (dynsym (fst (writeEntries_symbols foo_bar (initFileHeader elf64 Object_init)
       kTextStartAddress)) ! 2)) = 32
   \<and> (\<exists>elf header_padding text_padding.
         writeEntries_layout elf64 foo_bar = Inr (elf, header_padding, text_padding)
       \<and> sh_size (section_headers elf Sec_kText) = 48)"
proof -
  obtain elf0 tea where
    s: "writeEntries_symbols foo_bar (initFileHeader elf64 Object_init) kTextStartAddress = (elf0, tea)"
    by (cases "writeEntries_symbols foo_bar (initFileHeader elf64 Object_init) kTextStartAddress")
  note t = writeEntries_symbol_layout [OF s]
  have i: "(1::nat) < length foo_bar" by (simp add: foo_bar_def)
  have b: "unat kTextStartAddress + sum_list (map (\<lambda>e. length (code e)) foo_bar) < 2 ^ 64"
    by (simp add: foo_bar_def kTextStartAddress_def kPageSize_def)
  from t i have "sym_address (dynsym elf0 ! (1 + 1)) =
      kTextStartAddress + of_nat (sum_list (map (\<lambda>e. length (code e)) (take 1 foo_bar)))"
    by blast
  then have a1: "sym_address (dynsym elf0 ! 2) = 0x1010"
    by (simp add: foo_bar_def kTextStartAddress_def kPageSize_def numeral_2_eq_2)
  from t i b have "unat (sym_size (dynsym elf0 ! (1 + 1))) = length (code (foo_bar ! 1))"
    by blast
  then have a2: "unat (sym_size (dynsym elf0 ! 2)) = 32"
    by (simp add: foo_bar_def numeral_2_eq_2)
  from layout_succeeds [OF elf64_abi_ok elf64_headers_fit elf64_fits_foo_bar]
  obtain elf hp tp where l: "writeEntries_layout elf64 foo_bar = Inr (elf, hp, tp)" by blast
  with t have "sh_size (section_headers elf Sec_kText) = tea - kTextStartAddress"
    and "tea - kTextStartAddress = of_nat (sum_list (map (\<lambda>e. length (code e)) foo_bar))"
    by blast+
  then have "sh_size (section_headers elf Sec_kText) = 48" by (simp add: foo_bar_def)
  with l a1 a2 s show ?thesis by auto
qed

text \<open>
  C2. The layout returns normally when the parameters and the size of the input meet the
  three conditions. When it returns the workspace \<open>elf\<close> and the two paddings,
  the bytes that \<open>writeEntries\<close> sends to a stream are, in this order and with
  nothing else: the image of the file header, the images of the five section headers (the
  Null header being the all-zero one), the images of the two segment headers, the header
  padding, the code of every entry in the order of the entries, the text padding, the
  symbol table, the table of symbol names and the table of section names. A good stream
  with room for that many bytes takes them all and \<open>writeEntries\<close> returns
  normally; and whenever \<open>writeEntries\<close> returns normally on a stream that was
  not in the fail state, the stream holds what it held before followed by exactly these
  bytes. The paddings are the ones that the two alignment steps computed.
\<close>

theorem writeEntries_byte_stream:
  "(abi_ok a \<and> headers_fit a \<and> layout_fits a entries \<longrightarrow>
      (\<exists>elf header_padding text_padding.
         writeEntries_layout a entries = Inr (elf, header_padding, text_padding)))
   \<and> (\<forall>elf header_padding text_padding.
        writeEntries_layout a entries = Inr (elf, header_padding, text_padding) \<longrightarrow>
        (let bytes = FileHeader_image a (file_header elf)
            @ concat (map (\<lambda>i. SectionHeader_image a (section_headers elf i))
                [Sec_kNull, Sec_kText, Sec_kDynsym, Sec_kDynstr, Sec_kShstrtab])
            @ concat (map (\<lambda>i. SegmentHeader_image a (segment_headers elf i))
                [Seg_kText, Seg_kReadonly])
            @ replicate (unat header_padding) 0
            @ concat (map code entries)
            @ replicate (unat text_padding) 0
            @ SymbolTable_bytes a (dynsym elf)
            @ StringTable_bytes (dynstr elf)
            @ StringTable_bytes (shstrtab elf)
         in (ostream_accepts os (length bytes) \<longrightarrow>
               writeEntries a os entries = Inr (ostream_append os bytes))
          \<and> (\<forall>os'. \<not> failbit os \<and> writeEntries a os entries = Inr os' \<longrightarrow>
                contents os' = contents os @ bytes)
          \<and> section_headers elf Sec_kNull = SectionHeader_init
          \<and> header_padding =
              alignUp (of_nat (offsetof_header_stop a)) - of_nat (offsetof_header_stop a)
          \<and> text_padding =
              alignUp (sh_offset (section_headers elf Sec_kText) + sh_size (section_headers elf Sec_kText))
              - (sh_offset (section_headers elf Sec_kText) + sh_size (section_headers elf Sec_kText))))"
  using layout_succeeds [of a entries] layout_byte_stream [of a entries _ _ _ os] by blast

text \<open>
  The entries \<open>foo\<close> and \<open>bar\<close> on an empty stream that never
  fails; the header padding is 3600 bytes.
\<close>

theorem writeEntries_byte_stream_witness:
  "abi_ok elf64 \<and> headers_fit elf64 \<and> layout_fits elf64 foo_bar
   \<and> (\<exists>elf header_padding text_padding.
       writeEntries_layout elf64 foo_bar = Inr (elf, header_padding, text_padding)
     \<and> header_padding = 3600
     \<and> ostream_accepts \<lparr>contents = [], badbit = False, failbit = False, room = None\<rparr> 0
     \<and> contents (projr (writeEntries elf64 \<lparr>contents = [], badbit = False, failbit = False, room = None\<rparr> foo_bar)) =
          FileHeader_image elf64 (file_header elf)
          @ concat (map (\<lambda>i. SectionHeader_image elf64 (section_headers elf i))
              [Sec_kNull, Sec_kText, Sec_kDynsym, Sec_kDynstr, Sec_kShstrtab])
          @ concat (map (\<lambda>i. SegmentHeader_image elf64 (segment_headers elf i))
              [Seg_kText, Seg_kReadonly])
          @ replicate (unat header_padding) 0
          @ concat (map code foo_bar)
          @ replicate (unat text_padding) 0
          @ SymbolTable_bytes elf64 (dynsym elf)
          @ StringTable_bytes (dynstr elf)
          @ StringTable_bytes (shstrtab elf))"
proof -
  let ?os = "\<lparr>contents = [], badbit = False, failbit = False, room = None\<rparr>"
  note c = elf64_abi_ok elf64_headers_fit elf64_fits_foo_bar
  note t = writeEntries_byte_stream [of elf64 foo_bar ?os, unfolded Let_def]
  from t c obtain elf hp tp where l: "writeEntries_layout elf64 foo_bar = Inr (elf, hp, tp)"
    by blast
  have acc: "ostream_accepts ?os n" for n by (simp add: ostream_accepts_def)
  have "alignUp (of_nat (offsetof_header_stop elf64)) - of_nat (offsetof_header_stop elf64) = 3600"
    by (simp add: alignUp_def kPageSize_def elf64_def offsetof_header_stop_def
      offsetof_segment_headers_def offsetof_section_headers_def SectionIdx_kTotal_def
      SegmentIdx_kTotal_def all_sections_def all_segments_def sizeof_SectionHeader_def
      sizeof_SegmentHeader_def)
  then have p: "alignUp (of_nat (offsetof_header_stop elf64)) - of_nat (offsetof_header_stop elf64)
      = (3600 :: u64)" .
  from t l have 1: "hp = alignUp (of_nat (offsetof_header_stop elf64)) - of_nat (offsetof_header_stop elf64)"
    by blast
  from t l acc have 2: "writeEntries elf64 ?os foo_bar = Inr (ostream_append ?os
       (FileHeader_image elf64 (file_header elf)
        @ concat (map (\<lambda>i. SectionHeader_image elf64 (section_headers elf i))
            [Sec_kNull, Sec_kText, Sec_kDynsym, Sec_kDynstr, Sec_kShstrtab])
        @ concat (map (\<lambda>i. SegmentHeader_image elf64 (segment_headers elf i))
            [Seg_kText, Seg_kReadonly])
        @ replicate (unat hp) 0
        @ concat (map code foo_bar)
        @ replicate (unat tp) 0
        @ SymbolTable_bytes elf64 (dynsym elf)
        @ StringTable_bytes (dynstr elf)
        @ StringTable_bytes (shstrtab elf)))"
    by blast
  have 3: "contents (ostream_append ?os bs) = bs" for bs by (simp add: ostream_append_def)
  have "\<exists>elf header_padding text_padding.
       writeEntries_layout elf64 foo_bar = Inr (elf, header_padding, text_padding)
     \<and> header_padding = 3600
     \<and> ostream_accepts ?os 0
     \<and> contents (projr (writeEntries elf64 ?os foo_bar)) =
          FileHeader_image elf64 (file_header elf)
          @ concat (map (\<lambda>i. SectionHeader_image elf64 (section_headers elf i))
              [Sec_kNull, Sec_kText, Sec_kDynsym, Sec_kDynstr, Sec_kShstrtab])
          @ concat (map (\<lambda>i. SegmentHeader_image elf64 (segment_headers elf i))
              [Seg_kText, Seg_kReadonly])
          @ replicate (unat header_padding) 0
          @ concat (map code foo_bar)
          @ replicate (unat text_padding) 0
          @ SymbolTable_bytes elf64 (dynsym elf)
          @ StringTable_bytes (dynstr elf)
          @ StringTable_bytes (shstrtab elf)"
    apply (rule exI [of _ elf], rule exI [of _ hp], rule exI [of _ tp])
    apply (simp only: 2 sum.sel 3)
    apply (simp only: l acc 1 p)
    done
  with c show ?thesis by blast
qed

text \<open>
  C3. The layout returns normally when the parameters and the size of the input meet the
  three conditions, and in every workspace that it returns the Text section header has
  type Program, the flags Alloc and Executable, alignment 16, as size the sum of the code
  lengths of all entries (no padding inside), and a file offset that equals its virtual
  address and is one page, \<open>0x1000\<close>.
\<close>

theorem text_section_header:
  "(abi_ok a \<and> headers_fit a \<and> layout_fits a entries \<longrightarrow>
      (\<exists>elf header_padding text_padding.
         writeEntries_layout a entries = Inr (elf, header_padding, text_padding)))
   \<and> (\<forall>elf header_padding text_padding.
        writeEntries_layout a entries = Inr (elf, header_padding, text_padding) \<longrightarrow>
          sh_type (section_headers elf Sec_kText) = kProgram
        \<and> sh_flags (section_headers elf Sec_kText) = {kSectionAlloc, kSectionExecutable}
        \<and> sh_align (section_headers elf Sec_kText) = 16
        \<and> sh_size (section_headers elf Sec_kText) =
             of_nat (sum_list (map (\<lambda>e. length (code e)) entries))
        \<and> sh_offset (section_headers elf Sec_kText) = sh_address (section_headers elf Sec_kText)
        \<and> sh_offset (section_headers elf Sec_kText) = 0x1000
        \<and> (sum_list (map (\<lambda>e. length (code e)) entries) < 2 ^ 64 \<longrightarrow>
             unat (sh_size (section_headers elf Sec_kText)) =
               sum_list (map (\<lambda>e. length (code e)) entries)))"
  using layout_succeeds [of a entries] layout_text_section [of a entries] by blast

text \<open>
  The entries \<open>foo\<close> and \<open>bar\<close>: the Text section is at
  \<open>0x1000\<close> and has 48 bytes.
\<close>

theorem text_section_header_witness:
  "abi_ok elf64 \<and> headers_fit elf64 \<and> layout_fits elf64 foo_bar
   \<and> (\<exists>elf header_padding text_padding.
       writeEntries_layout elf64 foo_bar = Inr (elf, header_padding, text_padding)
     \<and> sh_type (section_headers elf Sec_kText) = kProgram
     \<and> sh_offset (section_headers elf Sec_kText) = 0x1000
     \<and> unat (sh_size (section_headers elf Sec_kText)) = 48)"
proof -
  note c = elf64_abi_ok elf64_headers_fit elf64_fits_foo_bar
  note t = text_section_header [of elf64 foo_bar]
  from t c obtain elf hp tp where l: "writeEntries_layout elf64 foo_bar = Inr (elf, hp, tp)"
    by blast
  have b: "sum_list (map (\<lambda>e. length (code e)) foo_bar) < 2 ^ 64" by (simp add: foo_bar_def)
  from t l b
  have "sh_type (section_headers elf Sec_kText) = kProgram"
    and "sh_offset (section_headers elf Sec_kText) = 0x1000"
    and "unat (sh_size (section_headers elf Sec_kText)) = sum_list (map (\<lambda>e. length (code e)) foo_bar)"
    by blast+
  with l c show ?thesis by (simp add: foo_bar_def)
qed

text \<open>
  C4, as stated, fails: an entry without code gets a symbol of size zero, and the symbol
  of the next entry has the same address. Here the symbols of \<open>f\<close> (no code)
  and \<open>g\<close> are both at \<open>0x1000\<close>.
\<close>

theorem symbol_addresses_not_strict:
  "sym_address (dynsym (fst (writeEntries_symbols empty_codes
         (initFileHeader elf64 Object_init) kTextStartAddress)) ! 1) = 0x1000
   \<and> sym_address (dynsym (fst (writeEntries_symbols empty_codes
         (initFileHeader elf64 Object_init) kTextStartAddress)) ! 2) = 0x1000
   \<and> \<not> sym_address (dynsym (fst (writeEntries_symbols empty_codes
         (initFileHeader elf64 Object_init) kTextStartAddress)) ! 1)
     < sym_address (dynsym (fst (writeEntries_symbols empty_codes
         (initFileHeader elf64 Object_init) kTextStartAddress)) ! 2)"
  by (simp add: empty_codes_def symbols_Cons initFileHeader_def Object_init_def
      SymbolTable_init_def kTextStartAddress_def kPageSize_def
      del: writeEntries_symbols.simps(2))

text \<open>
  C4, amended. Where the base plus the total code length is below \<open>2 ^ 64\<close>,
  the addresses of the symbols never decrease in the order of the entries, and the symbol
  of a later entry \<open>j\<close> has a strictly greater address than the symbol of an
  earlier entry \<open>i\<close> exactly when some entry from \<open>i\<close> up to, but
  without, \<open>j\<close> has code. So the addresses strictly increase when no entry is
  without code.
\<close>

theorem symbol_addresses_monotone:
  assumes "writeEntries_symbols entries (initFileHeader a Object_init) kTextStartAddress
             = (elf0, text_end_address)"
    and "unat kTextStartAddress + sum_list (map (\<lambda>e. length (code e)) entries) < 2 ^ 64"
    and "i < j" and "j < length entries"
  shows "sym_address (dynsym elf0 ! (1 + i)) \<le> sym_address (dynsym elf0 ! (1 + j))
    \<and> (sym_address (dynsym elf0 ! (1 + i)) < sym_address (dynsym elf0 ! (1 + j))
         \<longleftrightarrow> (\<exists>k. i \<le> k \<and> k < j \<and> code (entries ! k) \<noteq> []))"
proof -
  let ?len = "\<lambda>e. length (code e)"
  from assms(3,4) have i: "i < length entries" by simp
  note ui = symbols_unat_address [OF assms(1,2) i]
  note uj = symbols_unat_address [OF assms(1,2,4)]
  from assms(3) have "i \<le> j" by simp
  note split = sum_take_split [OF this, of ?len entries]
  have pos: "0 < sum_list (map ?len (drop i (take j entries)))
      \<longleftrightarrow> (\<exists>k. i \<le> k \<and> k < j \<and> code (entries ! k) \<noteq> [])"
    unfolding sum_pos_iff set_drop_take [OF assms(4)] by blast
  have le: "sym_address (dynsym elf0 ! Suc i) \<le> sym_address (dynsym elf0 ! Suc j)"
    by (simp add: word_le_nat_alt ui uj split)
  have less: "sym_address (dynsym elf0 ! Suc i) < sym_address (dynsym elf0 ! Suc j)
      \<longleftrightarrow> 0 < sum_list (map ?len (drop i (take j entries)))"
    by (simp add: word_less_nat_alt ui uj split)
  from le less pos show ?thesis by simp
qed

text \<open>
  The entries \<open>foo\<close> and \<open>bar\<close>: the address of \<open>foo\<close>
  is below the one of \<open>bar\<close>.
\<close>

theorem symbol_addresses_monotone_witness:
  "sym_address (dynsym (fst (writeEntries_symbols foo_bar (initFileHeader elf64 Object_init)
       kTextStartAddress)) ! 1)
   < sym_address (dynsym (fst (writeEntries_symbols foo_bar (initFileHeader elf64 Object_init)
       kTextStartAddress)) ! 2)"
proof -
  obtain elf0 tea where
    s: "writeEntries_symbols foo_bar (initFileHeader elf64 Object_init) kTextStartAddress = (elf0, tea)"
    by (cases "writeEntries_symbols foo_bar (initFileHeader elf64 Object_init) kTextStartAddress")
  have b: "unat kTextStartAddress + sum_list (map (\<lambda>e. length (code e)) foo_bar) < 2 ^ 64"
    by (simp add: foo_bar_def kTextStartAddress_def kPageSize_def)
  have ij: "(0::nat) < 1" "(1::nat) < length foo_bar" by (simp_all add: foo_bar_def)
  have k: "\<exists>k. (0::nat) \<le> k \<and> k < 1 \<and> code (foo_bar ! k) \<noteq> []"
    by (rule exI [of _ 0]) (simp add: foo_bar_def)
  from symbol_addresses_monotone [OF s b ij] k
  have "sym_address (dynsym elf0 ! (1 + 0)) < sym_address (dynsym elf0 ! (1 + 1))" by blast
  then show ?thesis by (simp add: s numeral_2_eq_2)
qed

text \<open>
  C5. \<open>write\<close> checks \<open>bad()\<close> alone after its bytes, and \<open>pad\<close> checks
  nothing. A stream that is in the fail state without \<open>badbit\<close>, as a file stream
  that could not be opened, reports an error after every step and takes no byte, and no
  check fires: for the entries \<open>foo\<close> and \<open>bar\<close>, \<open>writeEntries\<close> returns
  normally and the stream is as it was, with nothing written.
\<close>

theorem writeEntries_ignores_fail_state:
  "writeEntries elf64 \<lparr>contents = [], badbit = False, failbit = True, room = None\<rparr> foo_bar
     = Inr \<lparr>contents = [], badbit = False, failbit = True, room = None\<rparr>"
proof -
  from layout_succeeds [OF elf64_abi_ok elf64_headers_fit elf64_fits_foo_bar]
  obtain elf hp tp where l: "writeEntries_layout elf64 foo_bar = Inr (elf, hp, tp)" by blast
  show ?thesis by (rule writeEntries_failed [OF l]) simp_all
qed

text \<open>
  C6. The cursor is set behind the header tables (the file header, the section headers and
  the segment headers) and rounded up to the next page boundary. When the cursor is then
  not \<open>kTextStartAddress\<close>, the layout fails with a structural-invariant
  violation, and so does \<open>writeEntries\<close>, whatever the entries and the stream.
\<close>

theorem header_overrun_is_fatal:
  assumes "section_offset (snd (alignOffset
             (elf\<lparr>section_offset := of_nat (offsetof_header_stop a)\<rparr>))) \<noteq> kTextStartAddress"
  shows "writeEntries_layout a entries = Inl StructuralInvariantViolation
    \<and> writeEntries a os entries = Inl StructuralInvariantViolation"
proof -
  from assms have "alignUp (of_nat (offsetof_header_stop a)) \<noteq> kTextStartAddress"
    by (simp add: alignOffset_def Let_def)
  then have "writeEntries_layout a entries = Inl StructuralInvariantViolation"
    by (simp add: writeEntries_layout_def alignOffset_def Let_def split_beta)
  then show ?thesis by (simp add: writeEntries_def)
qed

text \<open>
  With a file header of 4000 bytes the header tables end at offset 4432, behind the first
  page, and the cursor is rounded up to \<open>0x2000\<close>.
\<close>

theorem header_overrun_is_fatal_witness:
  "section_offset (snd (alignOffset (Object_init
       \<lparr>section_offset := of_nat (offsetof_header_stop (elf64\<lparr>sizeof_FileHeader := 4000\<rparr>))\<rparr>)))
     = 0x2000
   \<and> writeEntries (elf64\<lparr>sizeof_FileHeader := 4000\<rparr>)
        \<lparr>contents = [], badbit = False, failbit = False, room = None\<rparr> foo_bar
       = Inl StructuralInvariantViolation"
proof -
  have v: "section_offset (snd (alignOffset (Object_init
       \<lparr>section_offset := of_nat (offsetof_header_stop (elf64\<lparr>sizeof_FileHeader := 4000\<rparr>))\<rparr>)))
     = 0x2000"
    by (simp add: alignOffset_def alignUp_def kPageSize_def elf64_def
      offsetof_header_stop_def offsetof_segment_headers_def offsetof_section_headers_def
      SectionIdx_kTotal_def SegmentIdx_kTotal_def all_sections_def all_segments_def
      sizeof_SectionHeader_def sizeof_SegmentHeader_def)
  then have h: "section_offset (snd (alignOffset (Object_init
       \<lparr>section_offset := of_nat (offsetof_header_stop (elf64\<lparr>sizeof_FileHeader := 4000\<rparr>))\<rparr>)))
     \<noteq> kTextStartAddress"
    by (simp only: kTextStartAddress_def kPageSize_def) simp
  from header_overrun_is_fatal [OF h] v show ?thesis by blast
qed

text \<open>
  C7. The layout returns normally when the parameters and the size of the input meet the
  three conditions, and in every workspace that it returns the Dynsym section header has
  type SymbolTable, the flags Alloc and InfoLink, the index of the Dynstr section as link,
  1 as info, the size of one symbol record as entry size and the length of the serialized
  symbol table as size.
\<close>

theorem dynsym_section_header:
  "(abi_ok a \<and> headers_fit a \<and> layout_fits a entries \<longrightarrow>
      (\<exists>elf header_padding text_padding.
         writeEntries_layout a entries = Inr (elf, header_padding, text_padding)))
   \<and> (\<forall>elf header_padding text_padding.
        writeEntries_layout a entries = Inr (elf, header_padding, text_padding) \<longrightarrow>
          sh_type (section_headers elf Sec_kDynsym) = kSymbolTable
        \<and> sh_flags (section_headers elf Sec_kDynsym) = {kSectionAlloc, kSectionInfoLink}
        \<and> sh_link (section_headers elf Sec_kDynsym) = of_nat (raw_SectionIdx Sec_kDynstr)
        \<and> sh_info (section_headers elf Sec_kDynsym) = 1
        \<and> sh_entry_size (section_headers elf Sec_kDynsym) = of_nat (sizeof_Symbol a)
        \<and> sh_size (section_headers elf Sec_kDynsym) =
             of_nat (length (SymbolTable_bytes a (dynsym elf))))"
  using layout_succeeds [of a entries] layout_dynsym_section [of a entries] by blast

text \<open>
  The entries \<open>foo\<close> and \<open>bar\<close> with the sizes of the 64-bit
  format: link 3, info 1, entry size 24.
\<close>

theorem dynsym_section_header_witness:
  "abi_ok elf64 \<and> headers_fit elf64 \<and> layout_fits elf64 foo_bar
   \<and> (\<exists>elf header_padding text_padding.
       writeEntries_layout elf64 foo_bar = Inr (elf, header_padding, text_padding)
     \<and> sh_link (section_headers elf Sec_kDynsym) = 3
     \<and> sh_info (section_headers elf Sec_kDynsym) = 1
     \<and> sh_entry_size (section_headers elf Sec_kDynsym) = 24)"
proof -
  note c = elf64_abi_ok elf64_headers_fit elf64_fits_foo_bar
  note t = dynsym_section_header [of elf64 foo_bar]
  from t c obtain elf hp tp where l: "writeEntries_layout elf64 foo_bar = Inr (elf, hp, tp)"
    by blast
  from t l
  have "sh_link (section_headers elf Sec_kDynsym) = of_nat (raw_SectionIdx Sec_kDynstr)"
    and "sh_info (section_headers elf Sec_kDynsym) = 1"
    and "sh_entry_size (section_headers elf Sec_kDynsym) = of_nat (sizeof_Symbol elf64)"
    by blast+
  with l c show ?thesis by (simp add: elf64_def)
qed

text \<open>
  C8. The layout returns normally when the parameters and the size of the input meet the
  three conditions, and in every workspace that it returns the Readonly segment header is
  Loadable with the flag Readable, its file offset and virtual address are those of the
  Dynsym section, its file size and memory size are both the Dynsym size plus the Dynstr
  size, and the Dynsym section lies strictly before the Dynstr section. On a workspace
  \<open>elf'\<close> where it does not, \<open>initReadonlySegment\<close> fails with a
  structural-invariant violation.
\<close>

theorem readonly_segment_header:
  "(abi_ok a \<and> headers_fit a \<and> layout_fits a entries \<longrightarrow>
      (\<exists>elf header_padding text_padding.
         writeEntries_layout a entries = Inr (elf, header_padding, text_padding)))
   \<and> (\<forall>elf header_padding text_padding.
        writeEntries_layout a entries = Inr (elf, header_padding, text_padding) \<longrightarrow>
          seg_type (segment_headers elf Seg_kReadonly) = kLoadableSegment
        \<and> seg_flags (segment_headers elf Seg_kReadonly) = {kSegmentReadable}
        \<and> seg_offset (segment_headers elf Seg_kReadonly) =
            sh_offset (section_headers elf Sec_kDynsym)
        \<and> seg_address (segment_headers elf Seg_kReadonly) =
            sh_address (section_headers elf Sec_kDynsym)
        \<and> seg_file_size (segment_headers elf Seg_kReadonly) =
            sh_size (section_headers elf Sec_kDynsym) + sh_size (section_headers elf Sec_kDynstr)
        \<and> seg_mem_size (segment_headers elf Seg_kReadonly) =
            sh_size (section_headers elf Sec_kDynsym) + sh_size (section_headers elf Sec_kDynstr)
        \<and> sh_address (section_headers elf Sec_kDynsym)
            < sh_address (section_headers elf Sec_kDynstr))
   \<and> (\<forall>elf'. \<not> sh_address (section_headers elf' Sec_kDynsym)
              < sh_address (section_headers elf' Sec_kDynstr) \<longrightarrow>
        initReadonlySegment elf' = Inl StructuralInvariantViolation)"
proof -
  have fatal: "\<forall>elf'. \<not> sh_address (section_headers elf' Sec_kDynsym)
              < sh_address (section_headers elf' Sec_kDynstr) \<longrightarrow>
        initReadonlySegment elf' = Inl StructuralInvariantViolation"
    by (simp add: initReadonlySegment_def)
  from layout_succeeds [of a entries] layout_readonly_segment [of a entries] fatal
  show ?thesis by blast
qed

text \<open>
  The entries \<open>foo\<close> and \<open>bar\<close> for the header; the fresh
  workspace, whose sections are all at address 0, for the failure.
\<close>

theorem readonly_segment_header_witness:
  "abi_ok elf64 \<and> headers_fit elf64 \<and> layout_fits elf64 foo_bar
   \<and> (\<exists>elf header_padding text_padding.
      writeEntries_layout elf64 foo_bar = Inr (elf, header_padding, text_padding)
    \<and> seg_type (segment_headers elf Seg_kReadonly) = kLoadableSegment
    \<and> seg_offset (segment_headers elf Seg_kReadonly) = sh_offset (section_headers elf Sec_kDynsym)
    \<and> seg_file_size (segment_headers elf Seg_kReadonly) =
         sh_size (section_headers elf Sec_kDynsym) + sh_size (section_headers elf Sec_kDynstr))
   \<and> \<not> sh_address (section_headers Object_init Sec_kDynsym)
         < sh_address (section_headers Object_init Sec_kDynstr)
   \<and> initReadonlySegment Object_init = Inl StructuralInvariantViolation"
proof -
  note c = elf64_abi_ok elf64_headers_fit elf64_fits_foo_bar
  note t = readonly_segment_header [of elf64 foo_bar]
  from t c obtain elf hp tp where l: "writeEntries_layout elf64 foo_bar = Inr (elf, hp, tp)"
    by blast
  have n: "\<not> sh_address (section_headers Object_init Sec_kDynsym)
         < sh_address (section_headers Object_init Sec_kDynstr)"
    by (simp add: Object_init_def SectionHeader_init_def)
  from t l have h: "seg_type (segment_headers elf Seg_kReadonly) = kLoadableSegment
    \<and> seg_offset (segment_headers elf Seg_kReadonly) = sh_offset (section_headers elf Sec_kDynsym)
    \<and> seg_file_size (segment_headers elf Seg_kReadonly) =
         sh_size (section_headers elf Sec_kDynsym) + sh_size (section_headers elf Sec_kDynstr)"
    by blast
  from t n have f: "initReadonlySegment Object_init = Inl StructuralInvariantViolation"
    by blast
  from c l h n f show ?thesis by blast
qed

text \<open>
  C9. For the empty list of entries, with parameters where the images have the sizes of
  their records, the header tables end within the first page and the symbol table ends
  below \<open>2 ^ 64\<close>: the layout passes every check and returns the workspace that is
  written out here in full. The Text section is at \<open>0x1000\<close> with size 0, the
  symbol table is the all-zero null symbol alone, the table of symbol names is the empty
  name alone, and no padding follows the Text section. On every good stream with room
  for them \<open>writeEntries\<close> returns normally and has appended the three header tables,
  the padding up to the page boundary and the three tables. In these bytes the file
  header is at offset 0, the section and segment header tables are where the file header
  says, and the contents of each of the four sections are where its header says, so the
  headers describe the file that is written.
\<close>

theorem empty_entries:
  assumes "abi_ok a" and "images_sized a" and "headers_fit a" and "layout_fits a []"
  shows "\<exists>elf header_padding text_padding.
      writeEntries_layout a [] = Inr (elf, header_padding, text_padding)
    \<and> file_header elf =
        \<lparr>segment_header_offset = of_nat (offsetof_segment_headers a),
         segment_header_count = 2,
         section_header_offset = of_nat (offsetof_section_headers a),
         section_header_count = 5,
         section_name_index = 4\<rparr>
    \<and> section_headers elf Sec_kNull = SectionHeader_init
    \<and> section_headers elf Sec_kText =
        \<lparr>sh_name_offset = 1, sh_type = kProgram,
         sh_flags = {kSectionAlloc, kSectionExecutable},
         sh_address = 0x1000, sh_offset = 0x1000, sh_size = 0,
         sh_link = 0, sh_info = 0, sh_align = 16, sh_entry_size = 0\<rparr>
    \<and> section_headers elf Sec_kDynsym =
        \<lparr>sh_name_offset = 7, sh_type = kSymbolTable,
         sh_flags = {kSectionAlloc, kSectionInfoLink},
         sh_address = 0x1000, sh_offset = 0x1000,
         sh_size = of_nat (sizeof_Symbol a),
         sh_link = 3, sh_info = 1, sh_align = 0,
         sh_entry_size = of_nat (sizeof_Symbol a)\<rparr>
    \<and> section_headers elf Sec_kDynstr =
        \<lparr>sh_name_offset = 15, sh_type = kStringTable,
         sh_flags = {kSectionAlloc},
         sh_address = 0x1000 + of_nat (sizeof_Symbol a),
         sh_offset = 0x1000 + of_nat (sizeof_Symbol a),
         sh_size = 1,
         sh_link = 0, sh_info = 0, sh_align = 0, sh_entry_size = 0\<rparr>
    \<and> section_headers elf Sec_kShstrtab =
        \<lparr>sh_name_offset = 23, sh_type = kStringTable,
         sh_flags = {},
         sh_address = 0,
         sh_offset = 0x1000 + of_nat (sizeof_Symbol a) + 1,
         sh_size = 33,
         sh_link = 0, sh_info = 0, sh_align = 0, sh_entry_size = 0\<rparr>
    \<and> segment_headers elf Seg_kText =
        \<lparr>seg_type = kLoadableSegment,
         seg_flags = {kSegmentExecutable, kSegmentReadable},
         seg_offset = 0x1000, seg_address = 0x1000,
         seg_file_size = 0, seg_mem_size = 0, seg_align = 0x1000\<rparr>
    \<and> segment_headers elf Seg_kReadonly =
        \<lparr>seg_type = kLoadableSegment,
         seg_flags = {kSegmentReadable},
         seg_offset = 0x1000, seg_address = 0x1000,
         seg_file_size = of_nat (sizeof_Symbol a) + 1,
         seg_mem_size = of_nat (sizeof_Symbol a) + 1,
         seg_align = 0x1000\<rparr>
    \<and> dynsym elf = [Symbol_init]
    \<and> dynstr elf = [0]
    \<and> shstrtab elf = 0 # map of_char ''.text'' @ 0 # map of_char ''.dynsym''
           @ 0 # map of_char ''.dynstr'' @ 0 # map of_char ''.shstrtab'' @ [0]
    \<and> unat header_padding = 4096 - offsetof_header_stop a
    \<and> text_padding = 0
    \<and> (let bytes = FileHeader_image a (file_header elf)
           @ concat (map (\<lambda>i. SectionHeader_image a (section_headers elf i))
               [Sec_kNull, Sec_kText, Sec_kDynsym, Sec_kDynstr, Sec_kShstrtab])
           @ concat (map (\<lambda>i. SegmentHeader_image a (segment_headers elf i))
               [Seg_kText, Seg_kReadonly])
           @ replicate (unat header_padding) 0
           @ SymbolTable_bytes a (dynsym elf)
           @ StringTable_bytes (dynstr elf)
           @ StringTable_bytes (shstrtab elf)
         in (\<forall>os. ostream_accepts os (length bytes) \<longrightarrow>
                writeEntries a os [] = Inr (ostream_append os bytes))
          \<and> length bytes = 4096 + sizeof_Symbol a + 34
          \<and> file_range bytes 0 (of_nat (sizeof_FileHeader a))
              = FileHeader_image a (file_header elf)
          \<and> file_range bytes (section_header_offset (file_header elf))
                (of_nat (SectionIdx_kTotal * sizeof_SectionHeader))
              = concat (map (\<lambda>i. SectionHeader_image a (section_headers elf i))
                  [Sec_kNull, Sec_kText, Sec_kDynsym, Sec_kDynstr, Sec_kShstrtab])
          \<and> file_range bytes (segment_header_offset (file_header elf))
                (of_nat (SegmentIdx_kTotal * sizeof_SegmentHeader))
              = concat (map (\<lambda>i. SegmentHeader_image a (segment_headers elf i))
                  [Seg_kText, Seg_kReadonly])
          \<and> file_range bytes (sh_offset (section_headers elf Sec_kText))
                (sh_size (section_headers elf Sec_kText)) = []
          \<and> file_range bytes (sh_offset (section_headers elf Sec_kDynsym))
                (sh_size (section_headers elf Sec_kDynsym)) = SymbolTable_bytes a (dynsym elf)
          \<and> file_range bytes (sh_offset (section_headers elf Sec_kDynstr))
                (sh_size (section_headers elf Sec_kDynstr)) = StringTable_bytes (dynstr elf)
          \<and> file_range bytes (sh_offset (section_headers elf Sec_kShstrtab))
                (sh_size (section_headers elf Sec_kShstrtab)) = StringTable_bytes (shstrtab elf))"
proof -
  from layout_succeeds [OF assms(1,3,4)]
  obtain elf hp tp where l: "writeEntries_layout a [] = Inr (elf, hp, tp)" by blast
  from assms(1) have sz: "length (Symbol_image a Symbol_init) = sizeof_Symbol a"
    by (simp add: abi_ok_def)
  note e = empty_layout [OF l, unfolded sz]
  from assms(3) have "offsetof_header_stop a \<le> 4096"
    by (simp add: headers_fit_def kPageSize_def)
  then have "unat (kTextStartAddress - of_nat (offsetof_header_stop a)) =
      4096 - offsetof_header_stop a"
    by (rule unat_kTextStartAddress_minus)
  then have uhp: "unat hp = 4096 - offsetof_header_stop a" by (simp only: e(12))
  from assms(4) have bound: "4096 + length (Symbol_image a Symbol_init) + 34 < 2 ^ 64"
    by (simp add: layout_fits_def sz kTextStartAddress_def kPageSize_def)
  define bytes where "bytes = FileHeader_image a (file_header elf)
           @ concat (map (\<lambda>i. SectionHeader_image a (section_headers elf i))
               [Sec_kNull, Sec_kText, Sec_kDynsym, Sec_kDynstr, Sec_kShstrtab])
           @ concat (map (\<lambda>i. SegmentHeader_image a (segment_headers elf i))
               [Seg_kText, Seg_kReadonly])
           @ replicate (unat hp) 0
           @ SymbolTable_bytes a (dynsym elf)
           @ StringTable_bytes (dynstr elf)
           @ StringTable_bytes (shstrtab elf)"
  have b: "bytes = FileHeader_image a (file_header elf)
        @ concat (map (\<lambda>i. SectionHeader_image a (section_headers elf i))
            [Sec_kNull, Sec_kText, Sec_kDynsym, Sec_kDynstr, Sec_kShstrtab])
        @ concat (map (\<lambda>i. SegmentHeader_image a (segment_headers elf i))
            [Seg_kText, Seg_kReadonly])
        @ replicate (unat hp) 0
        @ concat (map code [])
        @ replicate (unat tp) 0
        @ SymbolTable_bytes a (dynsym elf)
        @ StringTable_bytes (dynstr elf)
        @ StringTable_bytes (shstrtab elf)"
    by (simp add: bytes_def e(13))
  note st = empty_stream [OF l assms(2,3) bound b, unfolded sz]
  have w: "\<forall>os. ostream_accepts os (length bytes) \<longrightarrow>
                writeEntries a os [] = Inr (ostream_append os bytes)"
    using emit_accepted_bytes [OF b] by (simp add: writeEntries_def l)
  have t: "file_range bytes (sh_offset (section_headers elf Sec_kText))
                (sh_size (section_headers elf Sec_kText)) = []"
    using st(5) by simp
  have "writeEntries_layout a [] = Inr (elf, hp, tp)
    \<and> file_header elf =
        \<lparr>segment_header_offset = of_nat (offsetof_segment_headers a),
         segment_header_count = 2,
         section_header_offset = of_nat (offsetof_section_headers a),
         section_header_count = 5,
         section_name_index = 4\<rparr>
    \<and> section_headers elf Sec_kNull = SectionHeader_init
    \<and> section_headers elf Sec_kText =
        \<lparr>sh_name_offset = 1, sh_type = kProgram,
         sh_flags = {kSectionAlloc, kSectionExecutable},
         sh_address = 0x1000, sh_offset = 0x1000, sh_size = 0,
         sh_link = 0, sh_info = 0, sh_align = 16, sh_entry_size = 0\<rparr>
    \<and> section_headers elf Sec_kDynsym =
        \<lparr>sh_name_offset = 7, sh_type = kSymbolTable,
         sh_flags = {kSectionAlloc, kSectionInfoLink},
         sh_address = 0x1000, sh_offset = 0x1000,
         sh_size = of_nat (sizeof_Symbol a),
         sh_link = 3, sh_info = 1, sh_align = 0,
         sh_entry_size = of_nat (sizeof_Symbol a)\<rparr>
    \<and> section_headers elf Sec_kDynstr =
        \<lparr>sh_name_offset = 15, sh_type = kStringTable,
         sh_flags = {kSectionAlloc},
         sh_address = 0x1000 + of_nat (sizeof_Symbol a),
         sh_offset = 0x1000 + of_nat (sizeof_Symbol a),
         sh_size = 1,
         sh_link = 0, sh_info = 0, sh_align = 0, sh_entry_size = 0\<rparr>
    \<and> section_headers elf Sec_kShstrtab =
        \<lparr>sh_name_offset = 23, sh_type = kStringTable,
         sh_flags = {},
         sh_address = 0,
         sh_offset = 0x1000 + of_nat (sizeof_Symbol a) + 1,
         sh_size = 33,
         sh_link = 0, sh_info = 0, sh_align = 0, sh_entry_size = 0\<rparr>
    \<and> segment_headers elf Seg_kText =
        \<lparr>seg_type = kLoadableSegment,
         seg_flags = {kSegmentExecutable, kSegmentReadable},
         seg_offset = 0x1000, seg_address = 0x1000,
         seg_file_size = 0, seg_mem_size = 0, seg_align = 0x1000\<rparr>
    \<and> segment_headers elf Seg_kReadonly =
        \<lparr>seg_type = kLoadableSegment,
         seg_flags = {kSegmentReadable},
         seg_offset = 0x1000, seg_address = 0x1000,
         seg_file_size = of_nat (sizeof_Symbol a) + 1,
         seg_mem_size = of_nat (sizeof_Symbol a) + 1,
         seg_align = 0x1000\<rparr>
    \<and> dynsym elf = [Symbol_init]
    \<and> dynstr elf = [0]
    \<and> shstrtab elf = 0 # map of_char ''.text'' @ 0 # map of_char ''.dynsym''
           @ 0 # map of_char ''.dynstr'' @ 0 # map of_char ''.shstrtab'' @ [0]
    \<and> unat hp = 4096 - offsetof_header_stop a
    \<and> tp = 0
    \<and> (let bytes = FileHeader_image a (file_header elf)
           @ concat (map (\<lambda>i. SectionHeader_image a (section_headers elf i))
               [Sec_kNull, Sec_kText, Sec_kDynsym, Sec_kDynstr, Sec_kShstrtab])
           @ concat (map (\<lambda>i. SegmentHeader_image a (segment_headers elf i))
               [Seg_kText, Seg_kReadonly])
           @ replicate (unat hp) 0
           @ SymbolTable_bytes a (dynsym elf)
           @ StringTable_bytes (dynstr elf)
           @ StringTable_bytes (shstrtab elf)
         in (\<forall>os. ostream_accepts os (length bytes) \<longrightarrow>
                writeEntries a os [] = Inr (ostream_append os bytes))
          \<and> length bytes = 4096 + sizeof_Symbol a + 34
          \<and> file_range bytes 0 (of_nat (sizeof_FileHeader a))
              = FileHeader_image a (file_header elf)
          \<and> file_range bytes (section_header_offset (file_header elf))
                (of_nat (SectionIdx_kTotal * sizeof_SectionHeader))
              = concat (map (\<lambda>i. SectionHeader_image a (section_headers elf i))
                  [Sec_kNull, Sec_kText, Sec_kDynsym, Sec_kDynstr, Sec_kShstrtab])
          \<and> file_range bytes (segment_header_offset (file_header elf))
                (of_nat (SegmentIdx_kTotal * sizeof_SegmentHeader))
              = concat (map (\<lambda>i. SegmentHeader_image a (segment_headers elf i))
                  [Seg_kText, Seg_kReadonly])
          \<and> file_range bytes (sh_offset (section_headers elf Sec_kText))
                (sh_size (section_headers elf Sec_kText)) = []
          \<and> file_range bytes (sh_offset (section_headers elf Sec_kDynsym))
                (sh_size (section_headers elf Sec_kDynsym)) = SymbolTable_bytes a (dynsym elf)
          \<and> file_range bytes (sh_offset (section_headers elf Sec_kDynstr))
                (sh_size (section_headers elf Sec_kDynstr)) = StringTable_bytes (dynstr elf)
          \<and> file_range bytes (sh_offset (section_headers elf Sec_kShstrtab))
                (sh_size (section_headers elf Sec_kShstrtab)) = StringTable_bytes (shstrtab elf))"
    unfolding Let_def bytes_def [symmetric]
    using l e(1-11) uhp e(13) w st(1-4) t st(6-8) by (intro conjI) 
  then show ?thesis by blast
qed

text \<open>
  The sizes of the 64-bit format meet the four conditions; the object has 4154 bytes, of
  which 3600 are header padding.
\<close>

theorem empty_entries_witness:
  "abi_ok elf64 \<and> images_sized elf64 \<and> headers_fit elf64 \<and> layout_fits elf64 []
   \<and> (\<exists>elf header_padding text_padding.
      writeEntries_layout elf64 [] = Inr (elf, header_padding, text_padding)
    \<and> sh_size (section_headers elf Sec_kText) = 0
    \<and> sh_offset (section_headers elf Sec_kDynsym) = 0x1000
    \<and> dynsym elf = [Symbol_init]
    \<and> unat header_padding = 3600
    \<and> length (contents (projr (writeEntries elf64
           \<lparr>contents = [], badbit = False, failbit = False, room = None\<rparr> []))) = 4154)"
proof -
  let ?os = "\<lparr>contents = [], badbit = False, failbit = False, room = None\<rparr>"
  note c = elf64_abi_ok elf64_images_sized elf64_headers_fit elf64_fits_Nil
  have acc: "ostream_accepts ?os n" for n by (simp add: ostream_accepts_def)
  have hs: "offsetof_header_stop elf64 = 496"
    by (simp add: elf64_def offsetof_header_stop_def offsetof_segment_headers_def
      offsetof_section_headers_def SectionIdx_kTotal_def SegmentIdx_kTotal_def all_sections_def
      all_segments_def sizeof_SectionHeader_def sizeof_SegmentHeader_def)
  have sy: "sizeof_Symbol elf64 = 24" by (simp add: elf64_def)
  from empty_entries [OF c, unfolded Let_def hs sy] acc
  obtain elf hp tp bytes where l: "writeEntries_layout elf64 [] = Inr (elf, hp, tp)"
    and t: "section_headers elf Sec_kText =
        \<lparr>sh_name_offset = 1, sh_type = kProgram,
         sh_flags = {kSectionAlloc, kSectionExecutable},
         sh_address = 0x1000, sh_offset = 0x1000, sh_size = 0,
         sh_link = 0, sh_info = 0, sh_align = 16, sh_entry_size = 0\<rparr>"
    and d: "section_headers elf Sec_kDynsym =
        \<lparr>sh_name_offset = 7, sh_type = kSymbolTable,
         sh_flags = {kSectionAlloc, kSectionInfoLink},
         sh_address = 0x1000, sh_offset = 0x1000,
         sh_size = of_nat 24,
         sh_link = 3, sh_info = 1, sh_align = 0,
         sh_entry_size = of_nat 24\<rparr>"
    and y: "dynsym elf = [Symbol_init]"
    and p: "unat hp = 4096 - 496"
    and w: "writeEntries elf64 ?os [] = Inr (ostream_append ?os bytes)"
    and n: "length bytes = 4096 + 24 + 34"
    by blast
  have "length (contents (projr (writeEntries elf64 ?os []))) = 4154"
    by (simp add: w n ostream_append_def)
  with l t d y p c show ?thesis by auto
qed




end
